theory Spec2Isabelle
  imports Main "HOL-Library.Sublist"
begin

section \<open>Text: Python strings, \<open>str.lower\<close> and the \<open>in\<close> operator\<close>

text \<open>
  Python text is modelled as \<^typ>\<open>string\<close>, one \<^typ>\<open>char\<close> per character: the
  256 characters of \<^typ>\<open>char\<close> are the code points 0 to 255 (ASCII and Latin-1), and
  the character classes below are Python's on these code points. \<open>str.lower\<close> maps
  \<open>A\<close>..\<open>Z\<close> to \<open>a\<close>..\<open>z\<close> and the thirty Latin-1 capitals (\<open>0xC0\<close>..\<open>0xDE\<close> without
  the multiplication sign \<open>0xD7\<close>) to the letters 32 code points above them, and
  leaves every other character as it is.
\<close>

definition ascii_uppercase :: string where
  "ascii_uppercase = ''ABCDEFGHIJKLMNOPQRSTUVWXYZ''"

definition ascii_lowercase :: string where
  "ascii_lowercase = ''abcdefghijklmnopqrstuvwxyz''"

definition latin1_uppercase :: string where
  "latin1_uppercase =
     [CHR 0xC0, CHR 0xC1, CHR 0xC2, CHR 0xC3, CHR 0xC4, CHR 0xC5, CHR 0xC6, CHR 0xC7,
      CHR 0xC8, CHR 0xC9, CHR 0xCA, CHR 0xCB, CHR 0xCC, CHR 0xCD, CHR 0xCE, CHR 0xCF,
      CHR 0xD0, CHR 0xD1, CHR 0xD2, CHR 0xD3, CHR 0xD4, CHR 0xD5, CHR 0xD6, CHR 0xD8,
      CHR 0xD9, CHR 0xDA, CHR 0xDB, CHR 0xDC, CHR 0xDD, CHR 0xDE]"

definition latin1_lowercase :: string where
  "latin1_lowercase =
     [CHR 0xE0, CHR 0xE1, CHR 0xE2, CHR 0xE3, CHR 0xE4, CHR 0xE5, CHR 0xE6, CHR 0xE7,
      CHR 0xE8, CHR 0xE9, CHR 0xEA, CHR 0xEB, CHR 0xEC, CHR 0xED, CHR 0xEE, CHR 0xEF,
      CHR 0xF0, CHR 0xF1, CHR 0xF2, CHR 0xF3, CHR 0xF4, CHR 0xF5, CHR 0xF6, CHR 0xF8,
      CHR 0xF9, CHR 0xFA, CHR 0xFB, CHR 0xFC, CHR 0xFD, CHR 0xFE]"

definition lower_char :: "char \<Rightarrow> char" where
  "lower_char c =
     (case map_of (zip (ascii_uppercase @ latin1_uppercase)
                       (ascii_lowercase @ latin1_lowercase)) c of
        None \<Rightarrow> c
      | Some l \<Rightarrow> l)"

definition lower :: "string \<Rightarrow> string" where
  "lower s = map lower_char s"

text \<open>\<open>str_in sub s\<close> is Python's \<open>sub in s\<close> on strings: \<open>sub\<close> occurs in \<open>s\<close> as a
  contiguous block (the empty string occurs in every string).\<close>

fun str_in :: "string \<Rightarrow> string \<Rightarrow> bool" where
  "str_in sub [] = (sub = [])"
| "str_in sub (c # cs) = (prefix sub (c # cs) \<or> str_in sub cs)"

section \<open>The relevance filter (main.py, \<open>filter_and_process_job\<close>)\<close>

text \<open>
  A scraped job is a Python dict from field names to strings; \<open>job_data.get(k, d)\<close> is
  \<open>dict_get job_data k d\<close> and \<open>job_data.get(k)\<close> is the lookup itself (\<open>None\<close> when the
  key is absent). The resume keywords are the dict built by \<open>parse_resume_keywords\<close>,
  with its three fixed keys. The dict returned on acceptance has eight fixed keys.
\<close>

type_synonym job_data = "string \<rightharpoonup> string"

definition dict_get :: "job_data \<Rightarrow> string \<Rightarrow> string \<Rightarrow> string" where
  "dict_get d k dflt = (case d k of None \<Rightarrow> dflt | Some v \<Rightarrow> v)"

record keyword_set =
  skills :: "string list"
  roles :: "string list"
  preferences :: "string list"

record scored_job =
  sj_title :: "string option"
  sj_company :: "string option"
  sj_location :: "string option"
  sj_url :: "string option"
  sj_description :: string
  sj_date_posted :: string
  sj_date_found :: string
  relevance_score :: int

text \<open>The two clock readings the filter takes: \<open>datetime.date.today().isoformat()\<close> and
  \<open>datetime.datetime.now().isoformat()\<close>, at the moment of the call.\<close>

record clock =
  today_iso :: string
  now_iso :: string

definition is_remote :: "job_data \<Rightarrow> bool" where
  "is_remote job_data =
     (let title = lower (dict_get job_data ''title'' '''');
          location = lower (dict_get job_data ''location'' '''')
      in str_in ''remote'' location
         \<or> str_in ''work from home'' title
         \<or> str_in ''worldwide'' location
         \<or> str_in ''home office'' location)"

definition is_international_company :: "job_data \<Rightarrow> bool" where
  "is_international_company job_data =
     (let company = lower (dict_get job_data ''company'' '''');
          description = lower (dict_get job_data ''description'' '''')
      in list_ex (\<lambda>keyword. str_in keyword company)
           [''global'', ''international'', ''inc.'', ''corp.'']
         \<or> str_in ''global'' description
         \<or> str_in ''international'' description
         \<or> str_in ''worldwide'' description)"

definition is_ngo :: "job_data \<Rightarrow> bool" where
  "is_ngo job_data =
     (let company = lower (dict_get job_data ''company'' '''');
          description = lower (dict_get job_data ''description'' '''')
      in list_ex (\<lambda>keyword. str_in keyword company \<or> str_in keyword description)
           [''ngo'', ''non-profit'', ''foundation'', ''charity'', ''united nations'', ''wfp''])"

definition role_match :: "job_data \<Rightarrow> keyword_set \<Rightarrow> bool" where
  "role_match job_data resume_keywords =
     (let title = lower (dict_get job_data ''title'' '''');
          description = lower (dict_get job_data ''description'' '''')
      in list_ex (\<lambda>role. str_in (lower role) title \<or> str_in (lower role) description)
           (roles resume_keywords))"

definition skills_match_count :: "job_data \<Rightarrow> keyword_set \<Rightarrow> nat" where
  "skills_match_count job_data resume_keywords =
     (let title = lower (dict_get job_data ''title'' '''');
          description = lower (dict_get job_data ''description'' '''')
      in length (filter (\<lambda>skill. str_in (lower skill) description \<or> str_in (lower skill) title)
           (skills resume_keywords)))"

definition is_relevant :: "int \<Rightarrow> job_data \<Rightarrow> keyword_set \<Rightarrow> bool" where
  "is_relevant min_skill_matches job_data resume_keywords =
     (let has_sufficient_skills =
            (min_skill_matches \<le> int (skills_match_count job_data resume_keywords))
      in (is_remote job_data \<and> role_match job_data resume_keywords \<and> has_sufficient_skills)
         \<and> (is_international_company job_data \<or> is_ngo job_data))"

definition filter_and_process_job ::
    "clock \<Rightarrow> int \<Rightarrow> job_data \<Rightarrow> keyword_set \<Rightarrow> scored_job option" where
  "filter_and_process_job clk min_skill_matches job_data resume_keywords =
     (if is_relevant min_skill_matches job_data resume_keywords then
        Some \<lparr> sj_title = job_data ''title'',
               sj_company = job_data ''company'',
               sj_location = job_data ''location'',
               sj_url = job_data ''url'',
               sj_description = lower (dict_get job_data ''description'' ''''),
               sj_date_posted = dict_get job_data ''date_posted'' (today_iso clk),
               sj_date_found = now_iso clk,
               relevance_score =
                 int (skills_match_count job_data resume_keywords)
                 + (if is_ngo job_data then 2 else 0)
                 + (if is_international_company job_data then 1 else 0) \<rparr>
      else None)"

text \<open>The fixed example of the specification, with the description and the location left
  open.\<close>

definition example_job :: "string \<Rightarrow> string \<Rightarrow> job_data" where
  "example_job location description =
     [''title'' \<mapsto> ''Backend Developer'',
      ''company'' \<mapsto> ''Acme Global Inc.'',
      ''location'' \<mapsto> location,
      ''url'' \<mapsto> ''https://example.org/jobs/1'',
      ''description'' \<mapsto> description,
      ''date_posted'' \<mapsto> ''2024-05-01'']"

definition example_keywords :: keyword_set where
  "example_keywords =
     \<lparr> skills = [''python'', ''django'', ''aws''],
       roles = [''backend developer''],
       preferences = [''remote'', ''international'', ''ngo'', ''non-profit'', ''worldwide''] \<rparr>"

definition example_clock :: clock where
  "example_clock = \<lparr> today_iso = ''2024-05-02'', now_iso = ''2024-05-02T09:30:00.000001'' \<rparr>"

section \<open>Exceptions\<close>

text \<open>
  The exceptions the modelled code raises and handles, all subclasses of Python's
  \<open>Exception\<close>. A computation that may raise returns \<open>exn + 'a\<close>, \<open>Inl\<close> the exception.
\<close>

datatype exn =
    RequestException
  | TimeoutException
  | WebDriverException
  | NoSuchElementException
  | OverflowError
  | ValueError
  | OperationalError
  | OtherException

section \<open>Description extraction (job_scraper.py, selenium_scraper.py)\<close>

text \<open>\<open>str_join sep xs\<close> is \<open>sep.join(xs)\<close>.\<close>

fun str_join :: "string \<Rightarrow> string list \<Rightarrow> string" where
  "str_join sep [] = []"
| "str_join sep [x] = x"
| "str_join sep (x # y # ys) = x @ sep @ str_join sep (y # ys)"

text \<open>
  What \<open>fetch_full_description_requests\<close> and job_scraper's
  \<open>fetch_full_description_selenium\<close> read from a parsed page (BeautifulSoup):
  the text of the first element matching the site-specific selector, if there is one
  (\<open>get_text(separator="\n", strip=True)\<close>); the texts (\<open>get_text(strip=True)\<close>) of the
  elements whose class contains \<open>description\<close>, \<open>content\<close> or \<open>job-details\<close>; and the
  texts of all \<open>div\<close>, \<open>p\<close> and \<open>li\<close> elements.
\<close>

record soup_view =
  specific_text :: "string option"
  generic_texts :: "string list"
  broad_texts :: "string list"

text \<open>
  What selenium_scraper's \<open>fetch_full_description_selenium\<close> reads from the rendered
  page: the \<open>.text\<close> of the elements found by the site-specific selectors, the \<open>.text\<close> of
  the main content element and the \<open>.text\<close> of \<open>body\<close>, each found or raising
  (NoSuchElementException when the element is absent).
\<close>

record element_view =
  description_elements :: "string list"
  main_content_div :: "exn + string"
  body_element :: "exn + string"

text \<open>
  A Selenium driver: navigating to a URL and waiting either raises or gives the page,
  read through \<open>page_source\<close> (job_scraper.py) or through \<open>find_elements\<close>
  (selenium_scraper.py). \<open>driver = None\<close> in the source is \<open>None\<close> here.
\<close>

record driver =
  page_source :: "string \<Rightarrow> exn + soup_view"
  find_elements :: "string \<Rightarrow> exn + element_view"

text \<open>
  The white space of Python's \<open>str.isspace\<close>, \<open>str.strip()\<close> and the pattern \<open>\s\<close>: the
  space, \<open>0x09\<close>..\<open>0x0D\<close>, \<open>0x1C\<close>..\<open>0x1F\<close>, the next-line control \<open>0x85\<close> and the
  no-break space \<open>0xA0\<close>.
\<close>

definition is_space :: "char \<Rightarrow> bool" where
  "is_space c = (c \<in> set [CHR '' '', CHR 0x09, CHR 0x0A, CHR 0x0B, CHR 0x0C, CHR 0x0D,
                             CHR 0x1C, CHR 0x1D, CHR 0x1E, CHR 0x1F, CHR 0x85, CHR 0xA0])"

definition strip :: "string \<Rightarrow> string" where
  "strip s = rev (dropWhile is_space (rev (dropWhile is_space s)))"

definition generic_description_text :: "soup_view \<Rightarrow> string" where
  "generic_description_text soup =
     (let description_elements =
            (if generic_texts soup = [] then broad_texts soup else generic_texts soup)
      in str_join '' '' (filter (\<lambda>t. t \<noteq> []) description_elements))"

text \<open>job_scraper.py, \<open>fetch_full_description_requests(job_url)\<close>; \<open>http_get\<close> is the GET
  of the URL with \<open>raise_for_status\<close> and the parse, which raise or give the page.\<close>

definition fetch_full_description_requests ::
    "(string \<Rightarrow> exn + soup_view) \<Rightarrow> string \<Rightarrow> string" where
  "fetch_full_description_requests http_get job_url =
     (if job_url = [] \<or> job_url = ''N/A'' then ''No URL provided.''
      else case http_get job_url of
             Inl e \<Rightarrow> ''N/A (Could not fetch full description via requests)''
           | Inr soup \<Rightarrow>
               (case specific_text soup of
                  Some description_div \<Rightarrow> take 5000 description_div
                | None \<Rightarrow> take 5000 (generic_description_text soup)))"

text \<open>job_scraper.py, \<open>fetch_full_description_selenium(driver, job_url)\<close>.\<close>

definition fetch_full_description_selenium_js :: "driver option \<Rightarrow> string \<Rightarrow> string" where
  "fetch_full_description_selenium_js drv job_url =
     (case drv of
        None \<Rightarrow> ''N/A (Selenium driver not available)''
      | Some d \<Rightarrow>
          if job_url = [] \<or> job_url = ''N/A'' then ''No URL provided.''
          else case page_source d job_url of
                 Inl e \<Rightarrow> ''N/A (Could not fetch full description via Selenium)''
               | Inr soup \<Rightarrow> take 5000 (generic_description_text soup))"

text \<open>selenium_scraper.py, \<open>fetch_full_description_selenium(driver, job_url)\<close>.\<close>

definition fetch_full_description_selenium :: "driver option \<Rightarrow> string \<Rightarrow> string" where
  "fetch_full_description_selenium drv job_url =
     (case drv of
        None \<Rightarrow> ''No Selenium driver available.''
      | Some d \<Rightarrow>
          if job_url = [] \<or> job_url = ''N/A'' then ''No URL provided.''
          else case find_elements d job_url of
                 Inl e \<Rightarrow> ''N/A (Could not fetch full description via Selenium)''
               | Inr page \<Rightarrow>
                   if description_elements page \<noteq> [] then
                     take 5000 (str_join '' '' (map strip (description_elements page)))
                   else case main_content_div page of
                          Inr t \<Rightarrow> take 5000 (strip t)
                        | Inl e \<Rightarrow>
                            if e = NoSuchElementException then
                              (case body_element page of
                                 Inr b \<Rightarrow> take 5000 (strip b)
                               | Inl e' \<Rightarrow>
                                   ''N/A (Could not fetch full description via Selenium)'')
                            else ''N/A (Could not fetch full description via Selenium)'')"

section \<open>The keyword extractor (resume_parser.py, config.py)\<close>

definition DEFAULT_SKILLS :: "string list" where
  "DEFAULT_SKILLS =
     [''python'', ''django'', ''flask'', ''aws'', ''docker'', ''kubernetes'', ''sql'',
      ''rest api'', ''microservices'', ''git'', ''linux'', ''cloud'', ''api design'']"

definition DEFAULT_ROLES :: "string list" where
  "DEFAULT_ROLES =
     [''software engineer'', ''backend developer'', ''software developer'',
      ''devops engineer'', ''cloud engineer'']"

definition DEFAULT_PREFERENCES :: "string list" where
  "DEFAULT_PREFERENCES = [''remote'', ''international'', ''ngo'', ''non-profit'', ''worldwide'']"

text \<open>
  The resume file as \<open>parse_resume_keywords\<close> meets it: absent (\<open>os.path.exists\<close> is
  false), present but \<open>extract_text\<close> raises, or present with its extracted text.
\<close>

datatype resume_file = Missing | Unreadable exn | Readable string

text \<open>
  \<open>parse_resume_keywords(pdf_path)\<close>. The empty dict \<open>{}\<close> it returns on failure is
  \<open>None\<close>. \<open>list(set(xs))\<close> keeps one copy of each element in an order Python leaves
  open; \<open>remdups\<close> is one such order, and the statements below speak of the elements
  only.
\<close>

definition parse_resume_keywords :: "resume_file \<Rightarrow> keyword_set option" where
  "parse_resume_keywords pdf =
     (case pdf of
        Missing \<Rightarrow> None
      | Unreadable e \<Rightarrow> None
      | Readable text \<Rightarrow>
          (let text_lower = lower text;
               extracted_skills = filter (\<lambda>skill. str_in skill text_lower) DEFAULT_SKILLS;
               extracted_roles = filter (\<lambda>role. str_in role text_lower) DEFAULT_ROLES
           in Some \<lparr> skills = remdups extracted_skills,
                      roles = remdups extracted_roles,
                      preferences = DEFAULT_PREFERENCES \<rparr>))"

text \<open>\<open>create_search_query(keywords, platform_name)\<close>; the \<open>wfp\<close> branch returns a list of
  terms, the others a string.\<close>

datatype query = Query_text string | Query_terms "string list"

definition create_search_query :: "keyword_set \<Rightarrow> string \<Rightarrow> query" where
  "create_search_query kw platform_name =
     (let role_terms = str_join '' OR '' (roles kw);
          skill_terms = str_join '' OR '' (skills kw);
          base_query = role_terms @ '' '' @ skill_terms
      in if platform_name = ''wellfound'' then
           Query_text (str_join ''+'' (roles kw @ skills kw) @ ''+remote'')
         else if platform_name = ''microsoft'' then
           Query_text (''q='' @ str_join ''%20'' (roles kw @ skills kw)
                       @ ''&lc=Nairobi%2C%20Nairobi%20City%2C%20Kenya'')
         else if platform_name = ''wfp'' then
           Query_terms (roles kw @ skills kw @ [''remote''])
         else if platform_name \<in> set [''unjobs'', ''un_careers''] then
           Query_text (str_join '' '' (roles kw @ skills kw @ [''remote'', ''ngo'', ''united nations'']))
         else Query_text base_query)"

section \<open>Posting dates (job_scraper.py)\<close>

text \<open>
  The functions of Python's \<open>datetime\<close> module that the adapters call are parameters:
  \<open>date_today\<close> is \<open>datetime.date.today()\<close> (one reading per card), \<open>minus_days d n\<close> is
  \<open>d - datetime.timedelta(days=n)\<close> (\<open>None\<close>: OverflowError), \<open>strptime s fmt\<close> is
  \<open>datetime.datetime.strptime(s, fmt).date()\<close> (\<open>None\<close>: ValueError) and \<open>isoformat\<close> is
  \<open>date.isoformat()\<close>.
\<close>

record 'd datetime_lib =
  date_today :: 'd
  minus_days :: "'d \<Rightarrow> nat \<Rightarrow> 'd option"
  strptime :: "string \<Rightarrow> string \<Rightarrow> 'd option"
  isoformat :: "'d \<Rightarrow> string"

text \<open>The pattern \<open>\d\<close>: among the code points 0 to 255 the decimal digits are
  \<open>0\<close>..\<open>9\<close>.\<close>

definition is_digit :: "char \<Rightarrow> bool" where
  "is_digit c = (c \<in> set ''0123456789'')"

text \<open>
  The pattern \<open>\w\<close>: the ASCII letters and digits, the underscore, and the Latin-1
  characters that are alphanumeric for Python (the letters, the ordinal indicators, the
  micro sign, the superscript digits and the fractions).
\<close>

definition latin1_other_alnum :: string where
  "latin1_other_alnum =
     [CHR 0xAA, CHR 0xB2, CHR 0xB3, CHR 0xB5, CHR 0xB9, CHR 0xBA, CHR 0xBC, CHR 0xBD,
      CHR 0xBE, CHR 0xDF, CHR 0xFF]"

definition is_word :: "char \<Rightarrow> bool" where
  "is_word c =
     (c \<in> set (ascii_lowercase @ ascii_uppercase @ ''0123456789_''
                @ latin1_uppercase @ latin1_lowercase @ latin1_other_alnum))"

definition digit_val :: "char \<Rightarrow> nat" where
  "digit_val c = length (takeWhile (\<lambda>d. d \<noteq> c) ''0123456789'')"

text \<open>\<open>int(s)\<close> on a string of decimal digits.\<close>

definition int_of_digits :: "string \<Rightarrow> nat" where
  "int_of_digits s = foldl (\<lambda>a c. 10 * a + digit_val c) 0 s"

text \<open>
  The pattern \<open>(\d+)\s+days?\s+ago\<close> with \<open>re.IGNORECASE\<close>, matched at the start of \<open>s\<close>;
  the result is \<open>int(group(1))\<close>. Each greedy repetition takes its longest run, and no
  shorter run can match, since the next pattern element excludes the characters of the
  run.
\<close>

definition match_days_ago :: "string \<Rightarrow> nat option" where
  "match_days_ago s =
     (let digits = takeWhile is_digit s;
          r1 = dropWhile is_digit s;
          r2 = dropWhile is_space r1;
          r3 = drop 3 r2;
          r4 = (case r3 of [] \<Rightarrow> r3 | c # cs \<Rightarrow> if lower_char c = CHR ''s'' then cs else r3);
          r5 = dropWhile is_space r4
      in if digits \<noteq> [] \<and> r2 \<noteq> r1 \<and> lower (take 3 r2) = ''day''
            \<and> r5 \<noteq> r4 \<and> lower (take 3 r5) = ''ago''
         then Some (int_of_digits digits) else None)"

text \<open>\<open>re.search\<close>: the match at the leftmost position that has one.\<close>

fun search_days_ago :: "string \<Rightarrow> nat option" where
  "search_days_ago [] = None"
| "search_days_ago (c # cs) =
     (case match_days_ago (c # cs) of
        Some n \<Rightarrow> Some n
      | None \<Rightarrow> search_days_ago cs)"

text \<open>
  scrape_unjobs_org, the date of one card: \<open>date_tag_text\<close> is
  \<open>date_tag.get_text(strip=True)\<close>, \<open>None\<close> when the card has no date element. An
  exception of the date arithmetic leaves through the card's handler.
\<close>

definition unjobs_date_posted :: "'d datetime_lib \<Rightarrow> string option \<Rightarrow> exn + string" where
  "unjobs_date_posted lib date_tag_text =
     (case date_tag_text of
        None \<Rightarrow> Inr (isoformat lib (date_today lib))
      | Some date_posted_str \<Rightarrow>
          if date_posted_str = [] then Inr (isoformat lib (date_today lib))
          else case search_days_ago date_posted_str of
                 Some days_ago \<Rightarrow>
                   (case minus_days lib (date_today lib) days_ago of
                      None \<Rightarrow> Inl OverflowError
                    | Some d \<Rightarrow> Inr (isoformat lib d))
               | None \<Rightarrow>
                   (case strptime lib (filter (\<lambda>c. c \<noteq> CHR '','') date_posted_str)
                           ''%B %d %Y'' of
                      Some date_obj \<Rightarrow> Inr (isoformat lib date_obj)
                    | None \<Rightarrow>
                        (case strptime lib date_posted_str ''%d %B %Y'' of
                           Some date_obj \<Rightarrow> Inr (isoformat lib date_obj)
                         | None \<Rightarrow> Inr (isoformat lib (date_today lib)))))"

text \<open>The pattern \<open>(\d{1,2}\s+\w+\s+\d{4})\<close> under \<open>re.match\<close> (at the start of \<open>s\<close>); the
  result is \<open>group(1)\<close>.\<close>

definition match_date_range :: "string \<Rightarrow> string option" where
  "match_date_range s =
     (let day = takeWhile is_digit (take 2 s);
          r1 = drop (length day) s;
          r2 = dropWhile is_space r1;
          word = takeWhile is_word r2;
          r3 = dropWhile is_word r2;
          r4 = dropWhile is_space r3;
          year = take 4 r4
      in if day \<noteq> [] \<and> r2 \<noteq> r1 \<and> word \<noteq> [] \<and> r4 \<noteq> r3
            \<and> length year = 4 \<and> list_all is_digit year
         then Some (day @ takeWhile is_space r1 @ word @ takeWhile is_space r3 @ year)
         else None)"

text \<open>scrape_careers_un_org, the date of one row.\<close>

definition careers_date_posted :: "'d datetime_lib \<Rightarrow> string option \<Rightarrow> string" where
  "careers_date_posted lib date_str_tag_text =
     (case date_str_tag_text of
        None \<Rightarrow> isoformat lib (date_today lib)
      | Some date_posted_str \<Rightarrow>
          if date_posted_str = [] then isoformat lib (date_today lib)
          else case match_date_range date_posted_str of
                 None \<Rightarrow> isoformat lib (date_today lib)
               | Some group1 \<Rightarrow>
                   (case strptime lib group1 ''%d %B %Y'' of
                      Some date_obj \<Rightarrow> isoformat lib date_obj
                    | None \<Rightarrow> isoformat lib (date_today lib)))"

subsection \<open>A calendar to run the examples\<close>

text \<open>
  A model of the \<open>datetime\<close> functions above on the proleptic Gregorian calendar, for
  ASCII input and English month names, for the two formats the adapters use. The general
  statements below hold for every \<open>datetime_lib\<close>; this one evaluates the examples.
\<close>

datatype ymd = Ymd nat nat nat

definition is_leap :: "nat \<Rightarrow> bool" where
  "is_leap y = (y mod 4 = 0 \<and> (y mod 100 \<noteq> 0 \<or> y mod 400 = 0))"

definition days_in_month :: "nat \<Rightarrow> nat \<Rightarrow> nat" where
  "days_in_month y m =
     (if m = 2 then (if is_leap y then 29 else 28)
      else if m \<in> set [4, 6, 9, 11] then 30 else 31)"

fun prev_day :: "ymd \<Rightarrow> ymd option" where
  "prev_day (Ymd y m d) =
     (if 1 < d then Some (Ymd y m (d - 1))
      else if 1 < m then Some (Ymd y (m - 1) (days_in_month y (m - 1)))
      else if 1 < y then Some (Ymd (y - 1) 12 31)
      else None)"

fun ymd_minus_days :: "ymd \<Rightarrow> nat \<Rightarrow> ymd option" where
  "ymd_minus_days d 0 = Some d"
| "ymd_minus_days d (Suc n) =
     (case prev_day d of None \<Rightarrow> None | Some p \<Rightarrow> ymd_minus_days p n)"

fun string_of_nat :: "nat \<Rightarrow> string" where
  "string_of_nat n =
     (if n < 10 then [''0123456789'' ! n]
      else string_of_nat (n div 10) @ [''0123456789'' ! (n mod 10)])"

declare string_of_nat.simps [simp del]

definition zero_pad :: "nat \<Rightarrow> string \<Rightarrow> string" where
  "zero_pad w s = replicate (w - length s) (CHR ''0'') @ s"

fun ymd_isoformat :: "ymd \<Rightarrow> string" where
  "ymd_isoformat (Ymd y m d) =
     zero_pad 4 (string_of_nat y) @ ''-'' @ zero_pad 2 (string_of_nat m) @ ''-''
     @ zero_pad 2 (string_of_nat d)"

definition month_names :: "string list" where
  "month_names =
     [''january'', ''february'', ''march'', ''april'', ''may'', ''june'', ''july'',
      ''august'', ''september'', ''october'', ''november'', ''december'']"

text \<open>The month number of a name, 13 when it is no month name.\<close>

definition month_number :: "string \<Rightarrow> nat" where
  "month_number w = Suc (length (takeWhile (\<lambda>m. m \<noteq> lower w) month_names))"

definition make_date :: "string \<Rightarrow> string \<Rightarrow> string \<Rightarrow> ymd option" where
  "make_date year word day =
     (let y = int_of_digits year; m = month_number word; d = int_of_digits day
      in if length year = 4 \<and> list_all is_digit year \<and> 1 \<le> y \<and> m \<le> 12
            \<and> day \<noteq> [] \<and> 1 \<le> d \<and> d \<le> days_in_month y m
         then Some (Ymd y m d) else None)"

definition is_alpha :: "char \<Rightarrow> bool" where
  "is_alpha c = (c \<in> set (ascii_lowercase @ ascii_uppercase))"

text \<open>The format \<open>%d %B %Y\<close>: day, spaces, month name, spaces, four-digit year.\<close>

definition parse_d_B_Y :: "string \<Rightarrow> ymd option" where
  "parse_d_B_Y s =
     (let day = takeWhile is_digit (take 2 s);
          r1 = drop (length day) s;
          r2 = dropWhile is_space r1;
          word = takeWhile is_alpha r2;
          r3 = dropWhile is_alpha r2;
          r4 = dropWhile is_space r3
      in if r2 \<noteq> r1 \<and> r4 \<noteq> r3 then make_date r4 word day else None)"

text \<open>The format \<open>%B %d %Y\<close>: month name, spaces, day, spaces, four-digit year.\<close>

definition parse_B_d_Y :: "string \<Rightarrow> ymd option" where
  "parse_B_d_Y s =
     (let word = takeWhile is_alpha s;
          r1 = dropWhile is_alpha s;
          r2 = dropWhile is_space r1;
          day = takeWhile is_digit (take 2 r2);
          r3 = drop (length day) r2;
          r4 = dropWhile is_space r3
      in if r2 \<noteq> r1 \<and> r4 \<noteq> r3 then make_date r4 word day else None)"

definition ymd_strptime :: "string \<Rightarrow> string \<Rightarrow> ymd option" where
  "ymd_strptime s fmt =
     (if fmt = ''%d %B %Y'' then parse_d_B_Y s
      else if fmt = ''%B %d %Y'' then parse_B_d_Y s
      else None)"

definition calendar :: "ymd \<Rightarrow> ymd datetime_lib" where
  "calendar today =
     \<lparr> date_today = today, minus_days = ymd_minus_days, strptime = ymd_strptime,
       isoformat = ymd_isoformat \<rparr>"

section \<open>The unjobs.org adapter (job_scraper.py)\<close>

text \<open>
  One card of the listing as \<open>scrape_unjobs_org\<close> reads it: the title link (its text and
  its \<open>href\<close>, if it has one), and the texts of the company, location and date elements,
  each \<open>None\<close> when the selector finds nothing. A listing page gives the cards of the
  first selector and those of the fallback selector.
\<close>

record unjobs_card =
  title_tag :: "(string \<times> string option) option"
  company_tag :: "string option"
  location_tag :: "string option"
  date_tag :: "string option"

record unjobs_listing =
  primary_cards :: "unjobs_card list"
  fallback_cards :: "unjobs_card list"

text \<open>A vacancy page: the Apply button and the fallback link, each absent (\<open>None\<close>) or
  present with or without an \<open>href\<close>.\<close>

record vacancy_view =
  apply_button :: "string option option"
  apply_fallback :: "string option option"

text \<open>The network as the unjobs adapter meets it: \<open>requests.utils.quote\<close>, and the GET and
  parse of a listing URL and of a vacancy URL, which raise or give the page.\<close>

record web =
  url_quote :: "string \<Rightarrow> string"
  get_listing :: "string \<Rightarrow> exn + unjobs_listing"
  get_vacancy :: "string \<Rightarrow> exn + vacancy_view"

definition get_unjobs_application_url :: "web \<Rightarrow> string \<Rightarrow> string" where
  "get_unjobs_application_url w vacancy_page_url =
     (if vacancy_page_url = [] \<or> \<not> str_in ''unjobs.org/vacancies'' vacancy_page_url
      then ''N/A''
      else case get_vacancy w vacancy_page_url of
             Inl e \<Rightarrow> ''N/A''
           | Inr page \<Rightarrow>
               (let apply_link =
                      (case apply_button page of
                         None \<Rightarrow> apply_fallback page
                       | Some l \<Rightarrow> Some l)
                in case apply_link of
                     Some (Some href) \<Rightarrow> strip href
                   | Some None \<Rightarrow> ''N/A''
                   | None \<Rightarrow> ''N/A''))"

definition unjobs_placeholder :: string where
  "unjobs_placeholder = ''Aggregator listing - refer to external URL for full details.''"

text \<open>The body of the loop over the cards: the record of one card, or the exception that
  the card's handler catches.\<close>

definition unjobs_card_job :: "'d datetime_lib \<Rightarrow> web \<Rightarrow> unjobs_card \<Rightarrow> exn + job_data" where
  "unjobs_card_job lib w job_card =
     (let title = (case title_tag job_card of Some (t, h) \<Rightarrow> t | None \<Rightarrow> ''N/A'');
          href = (case title_tag job_card of Some (t, Some h) \<Rightarrow> h | _ \<Rightarrow> ''N/A'');
          unjobs_vacancy_url =
            (if prefix ''/'' href then ''https://unjobs.org'' @ href else href);
          company = (case company_tag job_card of Some t \<Rightarrow> t | None \<Rightarrow> ''N/A'');
          location = (case location_tag job_card of Some t \<Rightarrow> t | None \<Rightarrow> ''N/A'')
      in case unjobs_date_posted lib (date_tag job_card) of
           Inl e \<Rightarrow> Inl e
         | Inr date_posted \<Rightarrow>
             Inr [''title'' \<mapsto> title,
                  ''company'' \<mapsto> company,
                  ''location'' \<mapsto> location,
                  ''url'' \<mapsto> get_unjobs_application_url w unjobs_vacancy_url,
                  ''description'' \<mapsto> unjobs_placeholder,
                  ''date_posted'' \<mapsto> date_posted])"

fun unjobs_cards_loop ::
    "'d datetime_lib \<Rightarrow> web \<Rightarrow> unjobs_card list \<Rightarrow> job_data list \<Rightarrow> job_data list" where
  "unjobs_cards_loop lib w [] jobs = jobs"
| "unjobs_cards_loop lib w (job_card # job_cards) jobs =
     (case unjobs_card_job lib w job_card of
        Inl e \<Rightarrow> unjobs_cards_loop lib w job_cards jobs
      | Inr job \<Rightarrow> unjobs_cards_loop lib w job_cards (jobs @ [job]))"

definition scrape_unjobs_org :: "'d datetime_lib \<Rightarrow> web \<Rightarrow> string \<Rightarrow> job_data list" where
  "scrape_unjobs_org lib w query =
     (let search_url = ''https://unjobs.org/?q='' @ url_quote w query
      in case get_listing w search_url of
           Inl e \<Rightarrow> []
         | Inr soup \<Rightarrow>
             (let job_cards =
                    (if primary_cards soup = [] then fallback_cards soup
                     else primary_cards soup)
              in unjobs_cards_loop lib w job_cards []))"

section \<open>The aggregator (job_scraper.py, \<open>scrape_all_jobs\<close>)\<close>

text \<open>
  The adapters of the repository. \<open>scrape_all_jobs\<close> calls the first four; the calls of
  the three scraping adapters are parameters, each returning its list of jobs or
  raising (\<open>Inl\<close>: an exception that leaves the adapter function). The result of
  \<open>scrape_all_jobs\<close> is the list of adapters it has called, in call order, and its own
  outcome.
\<close>

datatype adapter = Unjobs | CareersUN | Wellfound | LinkedIn | MicrosoftCareers | WFPCareers

record adapter_runs =
  run_unjobs_org :: "string \<Rightarrow> exn + job_data list"
  run_careers_un_org :: "exn + job_data list"
  run_wellfound :: "driver option \<Rightarrow> string \<Rightarrow> exn + job_data list"

definition scrape_linkedin_jobs :: "string option \<Rightarrow> job_data list" where
  "scrape_linkedin_jobs query = []"

definition scrape_all_jobs ::
    "adapter_runs \<Rightarrow> driver option \<Rightarrow> string \<Rightarrow> string
       \<Rightarrow> adapter list \<times> (exn + job_data list)" where
  "scrape_all_jobs runs drv unjobs_query wellfound_query =
     (case run_unjobs_org runs unjobs_query of
        Inl e \<Rightarrow> ([Unjobs], Inl e)
      | Inr unjobs_jobs \<Rightarrow>
          (case run_careers_un_org runs of
             Inl e \<Rightarrow> ([Unjobs, CareersUN], Inl e)
           | Inr careers_jobs \<Rightarrow>
               (case run_wellfound runs drv wellfound_query of
                  Inl e \<Rightarrow> ([Unjobs, CareersUN, Wellfound], Inl e)
                | Inr wellfound_jobs \<Rightarrow>
                    ([Unjobs, CareersUN, Wellfound, LinkedIn],
                     Inr (((([] @ unjobs_jobs) @ careers_jobs) @ wellfound_jobs)
                          @ scrape_linkedin_jobs None)))))"

section \<open>The store (db_manager.py)\<close>

text \<open>
  The \<open>jobs\<close> table is the list of its rows in insertion order; \<open>url\<close> is \<open>UNIQUE\<close>, and
  SQLite lets any number of rows have a \<open>NULL\<close> url. \<open>fault\<close> is the database error other
  than a violated constraint that an insert meets, if any (a locked or unwritable file:
  \<open>sqlite3.OperationalError\<close>); \<open>save_job_listing\<close> handles \<open>IntegrityError\<close> only.
\<close>

type_synonym store = "scored_job list"

definition get_all_job_urls :: "store \<Rightarrow> string option set" where
  "get_all_job_urls db = set (map sj_url db)"

definition save_job_listing ::
    "(scored_job \<Rightarrow> exn option) \<Rightarrow> store \<Rightarrow> scored_job \<Rightarrow> (exn + bool) \<times> store" where
  "save_job_listing fault db job_data =
     (case fault job_data of
        Some e \<Rightarrow> (Inl e, db)
      | None \<Rightarrow>
          if sj_url job_data \<noteq> None \<and> sj_url job_data \<in> set (map sj_url db)
          then (Inr False, db)
          else (Inr True, db @ [job_data]))"

section \<open>The run (main.py, \<open>main\<close>)\<close>

text \<open>
  What a run meets: the resume file, the rows of the table at the start, the database
  faults, the outcome of \<open>get_selenium_driver()\<close> (it raises, or returns \<open>None\<close> after
  handling a WebDriverException itself, or returns a driver), the adapters, the clock
  reading at the moment the \<open>n\<close>-th scraped job is handled, and the configured threshold.
\<close>

record world =
  resume_pdf :: resume_file
  database :: store
  db_fault :: "scored_job \<Rightarrow> exn option"
  selenium_start :: "exn + driver option"
  runs :: adapter_runs
  clock_at :: "nat \<Rightarrow> clock"
  MIN_SKILL_MATCHES :: int

text \<open>What a run does, in order: the driver session starts, one scraped job is passed to
  the filter, one accepted job is passed to \<open>save_job_listing\<close>, one accepted job is passed
  to \<open>send_email_notification\<close>, \<open>driver.quit()\<close> is called.\<close>

datatype event =
    Driver_started
  | Filter_called job_data
  | Save_called scored_job
  | Notified scored_job
  | Driver_quit

record run_state =
  rs_db :: store
  new_jobs_for_notification :: "scored_job list"
  rs_trace :: "event list"

text \<open>The loop of \<open>main\<close> over the scraped jobs; the second component is the exception
  that leaves the loop, if one does.\<close>

fun process_jobs ::
    "world \<Rightarrow> string option set \<Rightarrow> keyword_set \<Rightarrow> nat \<Rightarrow> job_data list \<Rightarrow> run_state
       \<Rightarrow> run_state \<times> exn option" where
  "process_jobs w existing_job_urls resume_keywords i [] st = (st, None)"
| "process_jobs w existing_job_urls resume_keywords i (job_data # rest) st =
     (if job_data ''url'' \<in> existing_job_urls then
        process_jobs w existing_job_urls resume_keywords (Suc i) rest st
      else
        case filter_and_process_job (clock_at w i) (MIN_SKILL_MATCHES w) job_data
               resume_keywords of
          None \<Rightarrow>
            process_jobs w existing_job_urls resume_keywords (Suc i) rest
              (st\<lparr> rs_trace := rs_trace st @ [Filter_called job_data] \<rparr>)
        | Some filtered_job \<Rightarrow>
            (case save_job_listing (db_fault w) (rs_db st) filtered_job of
               (Inl e, db') \<Rightarrow>
                 (st\<lparr> rs_db := db',
                      rs_trace := rs_trace st
                        @ [Filter_called job_data, Save_called filtered_job] \<rparr>,
                  Some e)
             | (Inr saved, db') \<Rightarrow>
                 process_jobs w existing_job_urls resume_keywords (Suc i) rest
                   (st\<lparr> rs_db := db',
                        new_jobs_for_notification :=
                          new_jobs_for_notification st @ [filtered_job],
                        rs_trace := rs_trace st
                          @ [Filter_called job_data, Save_called filtered_job] \<rparr>)))"

text \<open>
  \<open>main()\<close>: the state at the end of the run and the exception that ended it, if one
  did. \<open>create_search_query\<close> gives a string for the two platforms \<open>main\<close> names; a list
  in its place would raise in the adapter's URL construction.
\<close>

definition main :: "world \<Rightarrow> run_state \<times> exn option" where
  "main w =
     (let st0 = \<lparr> rs_db = database w, new_jobs_for_notification = [], rs_trace = [] \<rparr>
      in case parse_resume_keywords (resume_pdf w) of
           None \<Rightarrow> (st0, None)
         | Some resume_keywords \<Rightarrow>
             (let existing_job_urls = get_all_job_urls (database w);
                  drv = (case selenium_start w of Inl e \<Rightarrow> None | Inr d \<Rightarrow> d);
                  st1 = (case drv of
                           None \<Rightarrow> st0
                         | Some d \<Rightarrow> st0\<lparr> rs_trace := [Driver_started] \<rparr>)
              in case (create_search_query resume_keywords ''unjobs'',
                       create_search_query resume_keywords ''wellfound'') of
                   (Query_text unjobs_query, Query_text wellfound_query) \<Rightarrow>
                     (case snd (scrape_all_jobs (runs w) drv unjobs_query wellfound_query) of
                        Inl e \<Rightarrow> (st1, Some e)
                      | Inr all_jobs_found_this_run \<Rightarrow>
                          (case process_jobs w existing_job_urls resume_keywords 0
                                  all_jobs_found_this_run st1 of
                             (st2, Some e) \<Rightarrow> (st2, Some e)
                           | (st2, None) \<Rightarrow>
                               (let st3 = st2\<lparr> rs_trace := rs_trace st2
                                            @ map Notified (new_jobs_for_notification st2) \<rparr>
                                in case drv of
                                     None \<Rightarrow> (st3, None)
                                   | Some d \<Rightarrow>
                                       (st3\<lparr> rs_trace := rs_trace st3 @ [Driver_quit] \<rparr>,
                                        None))))
                 | _ \<Rightarrow> (st1, Some OtherException)))"

section \<open>Example inputs\<close>

text \<open>A job with three of the resume's skills in its description, for a given
  company.\<close>

definition score_job :: "string \<Rightarrow> job_data" where
  "score_job company =
     [''title'' \<mapsto> ''Backend Developer'',
      ''company'' \<mapsto> company,
      ''location'' \<mapsto> ''Remote'',
      ''url'' \<mapsto> ''https://example.org/jobs/2'',
      ''description'' \<mapsto> ''Python, AWS and Docker for our platform team'',
      ''date_posted'' \<mapsto> ''2024-05-01'']"

definition score_keywords :: keyword_set where
  "score_keywords =
     \<lparr> skills = [''python'', ''aws'', ''docker''],
       roles = [''backend developer''],
       preferences = [''remote'', ''international'', ''ngo'', ''non-profit'', ''worldwide''] \<rparr>"

definition later_clock :: clock where
  "later_clock = \<lparr> today_iso = ''2024-05-03'', now_iso = ''2024-05-03T18:00:00.000002'' \<rparr>"

definition long_soup :: soup_view where
  "long_soup =
     \<lparr> specific_text = Some (replicate 6000 (CHR ''x'')),
       generic_texts = [],
       broad_texts = [replicate 3000 (CHR ''a''), [], replicate 3000 (CHR ''b'')] \<rparr>"

definition fallback_soup :: soup_view where
  "fallback_soup = long_soup\<lparr> specific_text := None \<rparr>"

definition long_elements :: element_view where
  "long_elements =
     \<lparr> description_elements = [], main_content_div = Inl NoSuchElementException,
       body_element = Inr (replicate 7000 (CHR ''y'')) \<rparr>"

definition example_driver :: driver where
  "example_driver =
     \<lparr> page_source = (\<lambda>url. Inr fallback_soup), find_elements = (\<lambda>url. Inr long_elements) \<rparr>"

definition example_resume :: string where
  "example_resume = ''Senior Backend Developer. Python, Django and AWS; Docker in production.''"

text \<open>The events the loop over the scraped jobs adds to the trace: the filter and the
  insert, each on a job whose url is not among the urls the run started with.\<close>

definition loop_event :: "string option set \<Rightarrow> event \<Rightarrow> bool" where
  "loop_event ex ev =
     (case ev of
        Filter_called J \<Rightarrow> J ''url'' \<notin> ex
      | Save_called r \<Rightarrow> sj_url r \<notin> ex
      | _ \<Rightarrow> False)"

definition stored_row :: scored_job where
  "stored_row =
     \<lparr> sj_title = Some ''Backend Developer'',
       sj_company = Some ''Acme Global Inc.'',
       sj_location = Some ''Remote'',
       sj_url = Some ''https://example.org/jobs/2'',
       sj_description = ''python, aws and docker for our platform team'',
       sj_date_posted = ''2024-05-01'',
       sj_date_found = ''2024-05-01T08:00:00.000001'',
       relevance_score = 4 \<rparr>"

definition example_runs :: adapter_runs where
  "example_runs =
     \<lparr> run_unjobs_org = (\<lambda>query. Inr [score_job ''Acme Global Inc.'']),
       run_careers_un_org =
         Inr [example_job ''Remote - Worldwide'' ''python django aws api design''],
       run_wellfound = (\<lambda>drv query. Inr []) \<rparr>"

definition example_world :: world where
  "example_world =
     \<lparr> resume_pdf = Readable example_resume,
       database = [stored_row],
       db_fault = (\<lambda>job. None),
       selenium_start = Inr (Some example_driver),
       runs = example_runs,
       clock_at = (\<lambda>n. example_clock),
       MIN_SKILL_MATCHES = 2 \<rparr>"

definition locked_world :: world where
  "locked_world = example_world\<lparr> db_fault := (\<lambda>job. Some OperationalError) \<rparr>"

definition wellfound_raises :: adapter_runs where
  "wellfound_raises = example_runs\<lparr> run_wellfound := (\<lambda>drv query. Inl OtherException) \<rparr>"

definition example_card :: unjobs_card where
  "example_card =
     \<lparr> title_tag = Some (''Backend Developer - Global Health Foundation programme'',
                         Some ''/vacancies/1700000000001''),
       company_tag = Some ''UNICEF'',
       location_tag = Some ''Remote'',
       date_tag = Some ''3 days ago'' \<rparr>"

definition bare_card :: unjobs_card where
  "bare_card = \<lparr> title_tag = None, company_tag = None, location_tag = None, date_tag = None \<rparr>"

definition example_web :: web where
  "example_web =
     \<lparr> url_quote = (\<lambda>q. concat (map (\<lambda>c. if c = CHR '' '' then ''%20'' else [c]) q)),
       get_listing =
         (\<lambda>url. Inr \<lparr> primary_cards = [example_card, bare_card], fallback_cards = [] \<rparr>),
       get_vacancy =
         (\<lambda>url. Inr \<lparr> apply_button = Some (Some '' https://jobs.unicef.org/apply/77 ''),
                       apply_fallback = None \<rparr>) \<rparr>"

section \<open>Facts about text\<close>

lemma str_in_sublist: "str_in sub s \<longleftrightarrow> sublist sub s"
  by (induction s) (auto simp: sublist_Cons_right)

lemma str_in_append: "str_in sub s \<Longrightarrow> str_in sub (pre @ s @ post)"
  unfolding str_in_sublist by (meson sublist_appendI sublist_order.order_trans)

lemma lower_append: "lower (a @ b) = lower a @ lower b"
  by (simp add: lower_def)

section \<open>The relevance filter: acceptance\<close>

lemma card_filter_distinct:
  "distinct xs \<Longrightarrow> card {x \<in> set xs. P x} = length (filter P xs)"
  using distinct_card[of "filter P xs"] by simp

lemma accepted_iff_relevant:
  "filter_and_process_job clk m job kw \<noteq> None \<longleftrightarrow> is_relevant m job kw"
  by (simp add: filter_and_process_job_def)

lemma accepts_iff_conditions:
  "distinct (skills kw) \<Longrightarrow>
   (filter_and_process_job clk m job kw \<noteq> None) =
   (let title = lower (dict_get job ''title'' '''');
        company = lower (dict_get job ''company'' '''');
        location = lower (dict_get job ''location'' '''');
        description = lower (dict_get job ''description'' '''')
    in (str_in ''remote'' location \<or> str_in ''worldwide'' location
          \<or> str_in ''home office'' location \<or> str_in ''work from home'' title)
       \<and> (\<exists>r \<in> set (roles kw). str_in (lower r) title \<or> str_in (lower r) description)
       \<and> m \<le> int (card {s \<in> set (skills kw).
                         str_in (lower s) title \<or> str_in (lower s) description})
       \<and> ((str_in ''global'' company \<or> str_in ''international'' company
              \<or> str_in ''inc.'' company \<or> str_in ''corp.'' company
              \<or> str_in ''global'' description \<or> str_in ''international'' description
              \<or> str_in ''worldwide'' description)
            \<or> (\<exists>k \<in> {''ngo'', ''non-profit'', ''foundation'', ''charity'',
                        ''united nations'', ''wfp''}.
                  str_in k company \<or> str_in k description)))"
proof -
  assume d: "distinct (skills kw)"
  have c: "card {s \<in> set (skills kw). P s} = length (filter P (skills kw))" for P
    using d by (rule card_filter_distinct)
  have sw: "length (filter (\<lambda>s. A s \<or> B s) xs) = length (filter (\<lambda>s. B s \<or> A s) xs)"
    for A B :: "string \<Rightarrow> bool" and xs
    by (rule arg_cong[where f=length], rule filter_cong) auto
  show ?thesis
    unfolding accepted_iff_relevant is_relevant_def is_remote_def role_match_def
      skills_match_count_def is_international_company_def is_ngo_def Let_def c
    by (subst sw) (auto simp: list_ex_iff simp del: str_in.simps)
qed

lemma example_job_fields:
  "dict_get (example_job loc desc) ''title'' '''' = ''Backend Developer''"
  "dict_get (example_job loc desc) ''company'' '''' = ''Acme Global Inc.''"
  "dict_get (example_job loc desc) ''location'' '''' = loc"
  "dict_get (example_job loc desc) ''description'' '''' = desc"
  by (simp_all add: example_job_def dict_get_def)

lemma str_in_lower_append:
  "str_in sub (lower x) \<Longrightarrow> str_in sub (lower (pre @ x @ post))"
  by (simp only: lower_append str_in_append)

lemma example_accepted_if_skills:
  assumes "str_in ''python'' (lower desc)" "str_in ''django'' (lower desc)"
    "str_in ''aws'' (lower desc)"
  shows "filter_and_process_job clk 2 (example_job ''Remote - Worldwide'' desc)
           example_keywords \<noteq> None"
proof -
  let ?job = "example_job ''Remote - Worldwide'' desc"
  have rem: "is_remote ?job"
    unfolding is_remote_def example_job_fields by code_simp
  have "str_in (lower ''backend developer'') (lower ''Backend Developer'')"
    by code_simp
  then have role: "role_match ?job example_keywords"
    unfolding role_match_def example_job_fields Let_def example_keywords_def
    by (simp del: str_in.simps)
  have "str_in ''global'' (lower ''Acme Global Inc.'')" by code_simp
  then have intl: "is_international_company ?job"
    unfolding is_international_company_def example_job_fields Let_def
    by (simp del: str_in.simps)
  have low: "lower ''python'' = ''python''" "lower ''django'' = ''django''"
    "lower ''aws'' = ''aws''"
    by code_simp+
  have cnt: "skills_match_count ?job example_keywords = 3"
    unfolding skills_match_count_def example_job_fields Let_def example_keywords_def
    using assms by (simp add: low del: str_in.simps)
  show ?thesis
    unfolding accepted_iff_relevant is_relevant_def Let_def using rem role intl cnt by simp
qed

lemma example_accepted:
  "filter_and_process_job clk 2
     (example_job ''Remote - Worldwide'' (pre @ ''python django aws api design'' @ post))
     example_keywords \<noteq> None"
proof (rule example_accepted_if_skills)
  show "str_in ''python'' (lower (pre @ ''python django aws api design'' @ post))"
    by (rule str_in_lower_append) code_simp
  show "str_in ''django'' (lower (pre @ ''python django aws api design'' @ post))"
    by (rule str_in_lower_append) code_simp
  show "str_in ''aws'' (lower (pre @ ''python django aws api design'' @ post))"
    by (rule str_in_lower_append) code_simp
qed

lemma example_rejected_not_remote:
  "filter_and_process_job clk m (example_job ''New York, NY'' desc) kw = None"
proof -
  have "\<not> is_remote (example_job ''New York, NY'' desc)"
    unfolding is_remote_def example_job_fields by code_simp
  then show ?thesis
    by (simp add: filter_and_process_job_def is_relevant_def)
qed



text \<open>
  C1. For a keyword set (the skill terms are distinct), the filter returns a scored
  record exactly when, on the lower-cased fields, the job is remote (\<open>remote\<close>,
  \<open>worldwide\<close> or \<open>home office\<close> in the location, or \<open>work from home\<close> in the title), some
  role term occurs in the title or the description, the number of distinct skill terms
  occurring in the title or the description is at least the threshold, and the job is
  international (the company contains \<open>global\<close>, \<open>international\<close>, \<open>inc.\<close> or \<open>corp.\<close>, or the
  description contains \<open>global\<close>, \<open>international\<close> or \<open>worldwide\<close>) or an NGO (the company or
  the description contains one of the six NGO terms). The fixed example, with any
  description containing \<open>python django aws api design\<close>, is accepted at threshold 2, and
  with the location \<open>New York, NY\<close> it is rejected.
\<close>

theorem filter_accepts_iff:
  "(distinct (skills kw) \<longrightarrow>
     (filter_and_process_job clk m job kw \<noteq> None) =
     (let title = lower (dict_get job ''title'' '''');
          company = lower (dict_get job ''company'' '''');
          location = lower (dict_get job ''location'' '''');
          description = lower (dict_get job ''description'' '''')
      in (str_in ''remote'' location \<or> str_in ''worldwide'' location
            \<or> str_in ''home office'' location \<or> str_in ''work from home'' title)
         \<and> (\<exists>r \<in> set (roles kw). str_in (lower r) title \<or> str_in (lower r) description)
         \<and> m \<le> int (card {s \<in> set (skills kw).
                           str_in (lower s) title \<or> str_in (lower s) description})
         \<and> ((str_in ''global'' company \<or> str_in ''international'' company
                \<or> str_in ''inc.'' company \<or> str_in ''corp.'' company
                \<or> str_in ''global'' description \<or> str_in ''international'' description
                \<or> str_in ''worldwide'' description)
              \<or> (\<exists>k \<in> {''ngo'', ''non-profit'', ''foundation'', ''charity'',
                          ''united nations'', ''wfp''}.
                    str_in k company \<or> str_in k description))))
   \<and> filter_and_process_job clk' 2
        (example_job ''Remote - Worldwide'' (pre @ ''python django aws api design'' @ post))
        example_keywords \<noteq> None
   \<and> filter_and_process_job clk' 2 (example_job ''New York, NY'' desc) example_keywords = None"
proof (intro conjI impI)
  assume "distinct (skills kw)"
  then show "(filter_and_process_job clk m job kw \<noteq> None) =
     (let title = lower (dict_get job ''title'' '''');
          company = lower (dict_get job ''company'' '''');
          location = lower (dict_get job ''location'' '''');
          description = lower (dict_get job ''description'' '''')
      in (str_in ''remote'' location \<or> str_in ''worldwide'' location
            \<or> str_in ''home office'' location \<or> str_in ''work from home'' title)
         \<and> (\<exists>r \<in> set (roles kw). str_in (lower r) title \<or> str_in (lower r) description)
         \<and> m \<le> int (card {s \<in> set (skills kw).
                           str_in (lower s) title \<or> str_in (lower s) description})
         \<and> ((str_in ''global'' company \<or> str_in ''international'' company
                \<or> str_in ''inc.'' company \<or> str_in ''corp.'' company
                \<or> str_in ''global'' description \<or> str_in ''international'' description
                \<or> str_in ''worldwide'' description)
              \<or> (\<exists>k \<in> {''ngo'', ''non-profit'', ''foundation'', ''charity'',
                          ''united nations'', ''wfp''}.
                    str_in k company \<or> str_in k description)))"
    by (rule accepts_iff_conditions)
qed (rule example_accepted example_rejected_not_remote)+

theorem filter_accepts_iff_witness:
  "distinct (skills example_keywords)
   \<and> filter_and_process_job example_clock 2
        (example_job ''Remote - Worldwide'' ''python django aws api design'') example_keywords
       \<noteq> None
   \<and> filter_and_process_job example_clock 3
        (example_job ''Remote - Worldwide'' ''python and aws'') example_keywords = None"
proof -
  have d: "distinct (skills example_keywords)"
    by (simp add: example_keywords_def)
  note iff = filter_accepts_iff [THEN conjunct1, rule_format, OF d]
  have c: "card {s \<in> set (skills example_keywords). P s}
             = length (filter P (skills example_keywords))" for P
    using d by (rule card_filter_distinct)
  have a: "filter_and_process_job example_clock 2
        (example_job ''Remote - Worldwide'' ''python django aws api design'') example_keywords
       \<noteq> None"
    unfolding iff example_job_fields Let_def c by code_simp
  have b: "filter_and_process_job example_clock 3
        (example_job ''Remote - Worldwide'' ''python and aws'') example_keywords = None"
    using iff [of example_clock 3 "example_job ''Remote - Worldwide'' ''python and aws''"]
    unfolding example_job_fields Let_def c by code_simp
  from d a b show ?thesis by simp
qed

text \<open>On the fixed example the score is 6, not 4: \<open>ngo\<close> occurs in \<open>django\<close>, so the
  description counts as an NGO's.\<close>

lemma example_score:
  "map_option relevance_score
     (filter_and_process_job example_clock 2
        (example_job ''Remote - Worldwide'' ''python django aws api design'') example_keywords)
   = Some 6"
  by code_simp

section \<open>The relevance filter: score\<close>

text \<open>
  C2. An accepted job's score is the number of matched skills, plus 2 for an NGO, plus 1
  for an international company, and is not negative; with three matched skills an NGO
  that is not international scores 5 and an international company that is no NGO
  scores 4; a job that fails the acceptance test gets \<open>None\<close>, not a record.
\<close>

theorem score_formula:
  "(filter_and_process_job clk m job kw = Some r \<longrightarrow>
      relevance_score r = int (skills_match_count job kw)
                          + (if is_ngo job then 2 else 0)
                          + (if is_international_company job then 1 else 0)
      \<and> 0 \<le> relevance_score r)
   \<and> (filter_and_process_job clk m job kw = Some r \<and> skills_match_count job kw = 3
        \<and> is_ngo job \<and> \<not> is_international_company job \<longrightarrow> relevance_score r = 5)
   \<and> (filter_and_process_job clk m job kw = Some r \<and> skills_match_count job kw = 3
        \<and> \<not> is_ngo job \<and> is_international_company job \<longrightarrow> relevance_score r = 4)
   \<and> (\<not> is_relevant m job kw \<longrightarrow> filter_and_process_job clk m job kw = None)"
  by (auto simp: filter_and_process_job_def split: if_splits)

theorem score_formula_witness:
  "skills_match_count (score_job ''Green Earth Foundation'') score_keywords = 3
   \<and> is_ngo (score_job ''Green Earth Foundation'')
   \<and> \<not> is_international_company (score_job ''Green Earth Foundation'')
   \<and> map_option relevance_score
        (filter_and_process_job example_clock 2 (score_job ''Green Earth Foundation'')
           score_keywords) = Some 5
   \<and> skills_match_count (score_job ''Acme Global Inc.'') score_keywords = 3
   \<and> \<not> is_ngo (score_job ''Acme Global Inc.'')
   \<and> is_international_company (score_job ''Acme Global Inc.'')
   \<and> map_option relevance_score
        (filter_and_process_job example_clock 2 (score_job ''Acme Global Inc.'')
           score_keywords) = Some 4
   \<and> \<not> is_relevant 4 (score_job ''Acme Global Inc.'') score_keywords
   \<and> filter_and_process_job example_clock 4 (score_job ''Acme Global Inc.'') score_keywords
       = None"
proof -
  let ?ngo = "score_job ''Green Earth Foundation''" and ?intl = "score_job ''Acme Global Inc.''"
  have n: "skills_match_count ?ngo score_keywords = 3" "is_ngo ?ngo"
    "\<not> is_international_company ?ngo"
    by code_simp+
  have i: "skills_match_count ?intl score_keywords = 3" "\<not> is_ngo ?intl"
    "is_international_company ?intl"
    by code_simp+
  have "is_relevant 2 ?ngo score_keywords" by code_simp
  then obtain r where r: "filter_and_process_job example_clock 2 ?ngo score_keywords = Some r"
    by (simp add: filter_and_process_job_def)
  have "is_relevant 2 ?intl score_keywords" by code_simp
  then obtain q where q: "filter_and_process_job example_clock 2 ?intl score_keywords = Some q"
    by (simp add: filter_and_process_job_def)
  have rej: "\<not> is_relevant 4 ?intl score_keywords" by code_simp
  have "relevance_score r = 5"
    using score_formula [of example_clock 2 ?ngo score_keywords r] r n by simp
  moreover have "relevance_score q = 4"
    using score_formula [of example_clock 2 ?intl score_keywords q] q i by simp
  moreover have "filter_and_process_job example_clock 4 ?intl score_keywords = None"
    using score_formula [of example_clock 4 ?intl score_keywords] rej by simp
  ultimately show ?thesis using n i r q rej by simp
qed

section \<open>The relevance filter and the clock\<close>

text \<open>
  C6, as stated, fails: the same job and keywords filtered at two moments give records
  that differ in \<open>date_found\<close>.
\<close>

theorem filter_differs_across_time:
  "filter_and_process_job example_clock 2 (score_job ''Acme Global Inc.'') score_keywords
   \<noteq> filter_and_process_job later_clock 2 (score_job ''Acme Global Inc.'') score_keywords"
  by code_simp

text \<open>
  C6, amended. The filter is a function of the job, the keywords, the threshold and the
  clock reading at the call: two calls on the same job, keywords and threshold agree on
  acceptance and on every field of the record except \<open>date_found\<close>, which is the clock
  reading of the call, and \<open>date_posted\<close>, which is the job's own value when it has one
  and the day of the call otherwise.
\<close>

theorem filter_clock_dependence:
  "filter_and_process_job c1 m job kw =
     map_option (\<lambda>r. r\<lparr> sj_date_found := now_iso c1,
                         sj_date_posted := dict_get job ''date_posted'' (today_iso c1) \<rparr>)
       (filter_and_process_job c2 m job kw)"
  by (simp add: filter_and_process_job_def)

section \<open>Description extraction: the 5000-character bound\<close>

lemma sentinel_lengths:
  "length ''No URL provided.'' \<le> 5000"
  "length ''N/A (Could not fetch full description via requests)'' \<le> 5000"
  "length ''N/A (Could not fetch full description via Selenium)'' \<le> 5000"
  "length ''N/A (Selenium driver not available)'' \<le> 5000"
  "length ''No Selenium driver available.'' \<le> 5000"
  by simp_all

lemma requests_bound:
  "length (fetch_full_description_requests http_get job_url) \<le> 5000"
  unfolding fetch_full_description_requests_def
  by (simp split: sum.split option.split)

lemma selenium_js_bound:
  "length (fetch_full_description_selenium_js drv job_url) \<le> 5000"
  unfolding fetch_full_description_selenium_js_def
  by (simp split: sum.split option.split)

lemma selenium_bound:
  "length (fetch_full_description_selenium drv job_url) \<le> 5000"
  unfolding fetch_full_description_selenium_def
  by (simp split: sum.split option.split)

text \<open>
  C3. The text returned by each description-extraction function (the requests-based one
  and both Selenium-based ones) has at most 5000 characters, whatever the page and the
  URL; and on every path that extracts text from the page (the site-specific selector,
  the class heuristic, the broad sweep, the main-content and body fallbacks) the result
  is the first 5000 characters of the extracted text; every other path returns one of
  the short fixed strings.
\<close>

theorem description_truncated:
  "length (fetch_full_description_requests http_get job_url) \<le> 5000
   \<and> length (fetch_full_description_selenium drv job_url) \<le> 5000
   \<and> length (fetch_full_description_selenium_js drv job_url) \<le> 5000
   \<and> (job_url \<noteq> [] \<and> job_url \<noteq> ''N/A'' \<and> http_get job_url = Inr soup \<longrightarrow>
        fetch_full_description_requests http_get job_url =
          take 5000 (case specific_text soup of
                       Some t \<Rightarrow> t
                     | None \<Rightarrow> generic_description_text soup))
   \<and> (job_url \<noteq> [] \<and> job_url \<noteq> ''N/A'' \<and> page_source d job_url = Inr soup \<longrightarrow>
        fetch_full_description_selenium_js (Some d) job_url =
          take 5000 (generic_description_text soup))
   \<and> (job_url \<noteq> [] \<and> job_url \<noteq> ''N/A'' \<and> find_elements d job_url = Inr page
        \<and> description_elements page \<noteq> [] \<longrightarrow>
        fetch_full_description_selenium (Some d) job_url =
          take 5000 (str_join '' '' (map strip (description_elements page))))
   \<and> (job_url \<noteq> [] \<and> job_url \<noteq> ''N/A'' \<and> find_elements d job_url = Inr page
        \<and> description_elements page = [] \<and> main_content_div page = Inr t \<longrightarrow>
        fetch_full_description_selenium (Some d) job_url = take 5000 (strip t))
   \<and> (job_url \<noteq> [] \<and> job_url \<noteq> ''N/A'' \<and> find_elements d job_url = Inr page
        \<and> description_elements page = []
        \<and> main_content_div page = Inl NoSuchElementException
        \<and> body_element page = Inr b \<longrightarrow>
        fetch_full_description_selenium (Some d) job_url = take 5000 (strip b))"
  using requests_bound [of http_get job_url] selenium_bound [of drv job_url]
    selenium_js_bound [of drv job_url]
  by (auto simp: fetch_full_description_requests_def fetch_full_description_selenium_js_def
        fetch_full_description_selenium_def split: option.splits)

theorem description_truncated_witness:
  "length (fetch_full_description_requests (\<lambda>url. Inr long_soup) ''https://example.org/jobs/1'')
     = 5000
   \<and> fetch_full_description_requests (\<lambda>url. Inr fallback_soup) ''https://example.org/jobs/1''
       = replicate 3000 (CHR ''a'') @ '' '' @ replicate 1999 (CHR ''b'')
   \<and> length (fetch_full_description_selenium_js (Some example_driver)
               ''https://example.org/jobs/1'') = 5000
   \<and> length (fetch_full_description_selenium (Some example_driver)
               ''https://example.org/jobs/1'') = 5000"
proof -
  let ?url = "''https://example.org/jobs/1''"
  have u: "?url \<noteq> [] \<and> ?url \<noteq> ''N/A''" by simp
  have g: "generic_description_text fallback_soup
             = replicate 3000 (CHR ''a'') @ '' '' @ replicate 3000 (CHR ''b'')"
    by (simp add: generic_description_text_def fallback_soup_def long_soup_def)
  have sp: "is_space (CHR ''y'') = False" by (simp add: is_space_def)
  have st: "strip (replicate 7000 (CHR ''y'')) = replicate 7000 (CHR ''y'')"
    by (simp add: strip_def dropWhile_replicate sp)
  have 1: "fetch_full_description_requests (\<lambda>url. Inr long_soup) ?url
             = take 5000 (replicate 6000 (CHR ''x''))"
    using description_truncated [where job_url = ?url and http_get = "\<lambda>url. Inr long_soup"
        and soup = long_soup] u by (simp add: long_soup_def)
  have 2: "fetch_full_description_requests (\<lambda>url. Inr fallback_soup) ?url
             = take 5000 (generic_description_text fallback_soup)"
    using description_truncated [where job_url = ?url and http_get = "\<lambda>url. Inr fallback_soup"
        and soup = fallback_soup] u
    by (simp add: fallback_soup_def long_soup_def)
  have 3: "fetch_full_description_selenium_js (Some example_driver) ?url
             = take 5000 (generic_description_text fallback_soup)"
    using description_truncated [where job_url = ?url and d = example_driver
        and soup = fallback_soup] u by (simp add: example_driver_def)
  have 4: "fetch_full_description_selenium (Some example_driver) ?url
             = take 5000 (strip (replicate 7000 (CHR ''y'')))"
    using description_truncated [where job_url = ?url and d = example_driver
        and page = long_elements and b = "replicate 7000 (CHR ''y'')"] u
    by (simp add: example_driver_def long_elements_def)
  show ?thesis unfolding 1 2 3 4 g st by simp
qed

section \<open>The keyword extractor\<close>

text \<open>
  C8. For every resume text the extractor returns, for skills and for roles, exactly the
  terms of the fixed vocabulary that occur in the lower-cased text (each once, possibly
  none), and the full default list as preferences; when the file is missing or cannot be
  read it returns the empty result (\<open>None\<close> here) and raises nothing.
\<close>

theorem parse_resume_keywords_subset:
  "(\<exists>kw. parse_resume_keywords (Readable text) = Some kw
          \<and> set (skills kw) = {s \<in> set DEFAULT_SKILLS. str_in s (lower text)}
          \<and> set (roles kw) = {r \<in> set DEFAULT_ROLES. str_in r (lower text)}
          \<and> distinct (skills kw) \<and> distinct (roles kw)
          \<and> preferences kw = DEFAULT_PREFERENCES)
   \<and> parse_resume_keywords Missing = None
   \<and> parse_resume_keywords (Unreadable e) = None"
  by (simp add: parse_resume_keywords_def Let_def)

theorem parse_resume_keywords_subset_witness:
  "parse_resume_keywords (Readable example_resume)
     = Some \<lparr> skills = [''python'', ''django'', ''aws'', ''docker''],
              roles = [''backend developer''],
              preferences = [''remote'', ''international'', ''ngo'', ''non-profit'', ''worldwide''] \<rparr>
   \<and> parse_resume_keywords (Readable '''')
     = Some \<lparr> skills = [], roles = [],
              preferences = [''remote'', ''international'', ''ngo'', ''non-profit'', ''worldwide''] \<rparr>
   \<and> parse_resume_keywords Missing = None
   \<and> parse_resume_keywords (Unreadable OtherException) = None"
proof -
  have a: "parse_resume_keywords (Readable example_resume)
     = Some \<lparr> skills = [''python'', ''django'', ''aws'', ''docker''],
              roles = [''backend developer''],
              preferences = [''remote'', ''international'', ''ngo'', ''non-profit'', ''worldwide''] \<rparr>"
    by code_simp
  have b: "parse_resume_keywords (Readable '''')
     = Some \<lparr> skills = [], roles = [],
              preferences = [''remote'', ''international'', ''ngo'', ''non-profit'', ''worldwide''] \<rparr>"
    by code_simp
  from parse_resume_keywords_subset [of example_resume OtherException] a b
  show ?thesis by simp
qed

section \<open>Posting dates\<close>

lemma digit_nth_is_digit: "k < 10 \<Longrightarrow> is_digit (''0123456789'' ! k)"
  unfolding is_digit_def by (rule nth_mem) simp

lemma lt10_cases:
  "k < 10 \<Longrightarrow> k = 0 \<or> k = 1 \<or> k = 2 \<or> k = 3 \<or> k = 4 \<or> k = 5 \<or> k = 6 \<or> k = 7 \<or> k = 8 \<or> k = (9::nat)"
  by arith

lemma digit_val_nth: "k < 10 \<Longrightarrow> digit_val (''0123456789'' ! k) = k"
  by (drule lt10_cases) (auto simp: digit_val_def)

lemma string_of_nat_digits: "list_all is_digit (string_of_nat n)"
proof (induction n rule: string_of_nat.induct)
  case (1 n)
  show ?case
  proof (cases "n < 10")
    case True
    then show ?thesis
      by (subst string_of_nat.simps) (simp add: digit_nth_is_digit)
  next
    case False
    then show ?thesis
      using 1 by (subst string_of_nat.simps) (simp add: digit_nth_is_digit)
  qed
qed

lemma string_of_nat_nonempty: "string_of_nat n \<noteq> []"
  by (subst string_of_nat.simps) simp

lemma int_of_digits_snoc: "int_of_digits (s @ [c]) = 10 * int_of_digits s + digit_val c"
  by (simp add: int_of_digits_def)

lemma int_of_digits_string_of_nat: "int_of_digits (string_of_nat n) = n"
proof (induction n rule: string_of_nat.induct)
  case (1 n)
  show ?case
  proof (cases "n < 10")
    case True
    then show ?thesis
      by (subst string_of_nat.simps) (simp add: int_of_digits_def digit_val_nth)
  next
    case False
    then have "int_of_digits (string_of_nat n)
                 = 10 * int_of_digits (string_of_nat (n div 10))
                   + digit_val (''0123456789'' ! (n mod 10))"
      by (subst string_of_nat.simps) (simp add: int_of_digits_snoc)
    also have "\<dots> = 10 * (n div 10) + n mod 10"
      using 1 False by (simp add: digit_val_nth)
    finally show ?thesis by simp
  qed
qed

lemma takeWhile_digits_then:
  "list_all is_digit ds \<Longrightarrow> \<not> is_digit c \<Longrightarrow> takeWhile is_digit (ds @ c # rest) = ds"
  by (induction ds) auto

lemma dropWhile_digits_then:
  "list_all is_digit ds \<Longrightarrow> \<not> is_digit c \<Longrightarrow> dropWhile is_digit (ds @ c # rest) = c # rest"
  by (induction ds) auto

lemma match_days_ago_numeral:
  "match_days_ago (string_of_nat n @ '' days ago'') = Some n"
proof -
  let ?ds = "string_of_nat n"
  have nd: "\<not> is_digit (CHR '' '')" by (simp add: is_digit_def)
  have t: "takeWhile is_digit (?ds @ '' days ago'') = ?ds"
    using takeWhile_digits_then [OF string_of_nat_digits nd] by simp
  have d: "dropWhile is_digit (?ds @ '' days ago'') = '' days ago''"
    using dropWhile_digits_then [OF string_of_nat_digits nd] by simp
  show ?thesis
    unfolding match_days_ago_def t d Let_def
    by (simp add: is_space_def lower_def lower_char_def ascii_uppercase_def
          ascii_lowercase_def latin1_uppercase_def latin1_lowercase_def string_of_nat_nonempty int_of_digits_string_of_nat)
qed

lemma search_days_ago_numeral:
  "search_days_ago (string_of_nat n @ '' days ago'') = Some n"
proof -
  obtain c cs where s: "string_of_nat n @ '' days ago'' = c # cs"
    by (cases "string_of_nat n @ '' days ago''") auto
  show ?thesis
    using match_days_ago_numeral [of n] unfolding s by simp
qed

lemma digit_not_space: "is_digit c \<Longrightarrow> \<not> is_space c"
  by (auto simp: is_digit_def is_space_def)

lemma match_date_range_digits_days_ago:
  assumes "list_all is_digit ds" "ds \<noteq> []"
  shows "match_date_range (ds @ '' days ago'') = None"
proof (cases ds)
  case Nil
  with assms show ?thesis by simp
next
  case a: (Cons a r)
  show ?thesis
  proof (cases r)
    case Nil
    with a assms show ?thesis
      by (simp add: match_date_range_def is_digit_def is_space_def is_word_def latin1_other_alnum_def
            ascii_uppercase_def ascii_lowercase_def latin1_uppercase_def latin1_lowercase_def)
  next
    case b: (Cons b r')
    show ?thesis
    proof (cases r')
      case Nil
      with a b assms show ?thesis
        by (simp add: match_date_range_def is_digit_def is_space_def is_word_def latin1_other_alnum_def
              ascii_uppercase_def ascii_lowercase_def latin1_uppercase_def latin1_lowercase_def)
    next
      case (Cons c r'')
      with a b assms have "is_digit a" "is_digit b" "is_digit c" by simp_all
      then show ?thesis
        unfolding a b Cons
        by (simp add: match_date_range_def Let_def digit_not_space)
    qed
  qed
qed

lemma match_date_range_numeral:
  "match_date_range (string_of_nat n @ '' days ago'') = None"
  by (rule match_date_range_digits_days_ago [OF string_of_nat_digits string_of_nat_nonempty])

lemma match_date_range_no_digit:
  "\<not> is_digit c \<Longrightarrow> match_date_range (c # s) = None"
  by (simp add: match_date_range_def)

text \<open>
  C7, as stated, fails for the careers.un.org adapter: on \<open>3 days ago\<close> and on
  \<open>July 24, 2023\<close> the unjobs.org adapter gives the day three days back and the named
  day, and the careers.un.org adapter gives the current day.
\<close>

theorem careers_ignores_relative_dates:
  "unjobs_date_posted (calendar (Ymd 2024 5 2)) (Some ''3 days ago'') = Inr ''2024-04-29''
   \<and> careers_date_posted (calendar (Ymd 2024 5 2)) (Some ''3 days ago'') = ''2024-05-02''
   \<and> unjobs_date_posted (calendar (Ymd 2024 5 2)) (Some ''July 24, 2023'') = Inr ''2023-07-24''
   \<and> careers_date_posted (calendar (Ymd 2024 5 2)) (Some ''July 24, 2023'') = ''2024-05-02''"
  by code_simp

text \<open>
  C7, amended. The unjobs.org adapter: an absent or empty date gives the current date;
  a string in which \<open>N day(s) ago\<close> is found, \<open>N days ago\<close> itself among them, gives the
  current date minus \<open>N\<close> days when that date exists; any other string is parsed as
  \<open>Month D Year\<close> with its commas removed, else as \<open>D Month Year\<close>, else gives the current
  date, and raises nothing. The careers.un.org adapter: only a leading \<open>D Month Year\<close>
  (the start of a posting period) is parsed, as \<open>D Month Year\<close>; every other string, the
  relative forms and the strings that do not start with a digit among them, and an
  absent date give the current date.
\<close>

theorem date_normalization:
  "unjobs_date_posted lib None = Inr (isoformat lib (date_today lib))
   \<and> unjobs_date_posted lib (Some []) = Inr (isoformat lib (date_today lib))
   \<and> (minus_days lib (date_today lib) n = Some d \<longrightarrow>
        unjobs_date_posted lib (Some (string_of_nat n @ '' days ago''))
          = Inr (isoformat lib d))
   \<and> (s \<noteq> [] \<and> search_days_ago s = Some n \<and> minus_days lib (date_today lib) n = Some d \<longrightarrow>
        unjobs_date_posted lib (Some s) = Inr (isoformat lib d))
   \<and> (s \<noteq> [] \<and> search_days_ago s = None \<longrightarrow>
        unjobs_date_posted lib (Some s)
          = Inr (isoformat lib
                  (case strptime lib (filter (\<lambda>c. c \<noteq> CHR '','') s) ''%B %d %Y'' of
                     Some a \<Rightarrow> a
                   | None \<Rightarrow>
                       (case strptime lib s ''%d %B %Y'' of
                          Some b \<Rightarrow> b
                        | None \<Rightarrow> date_today lib))))
   \<and> careers_date_posted lib x
       = isoformat lib
           (case x of
              None \<Rightarrow> date_today lib
            | Some t \<Rightarrow>
                (case match_date_range t of
                   None \<Rightarrow> date_today lib
                 | Some g \<Rightarrow>
                     (case strptime lib g ''%d %B %Y'' of
                        Some a \<Rightarrow> a
                      | None \<Rightarrow> date_today lib)))
   \<and> careers_date_posted lib (Some (string_of_nat n @ '' days ago''))
       = isoformat lib (date_today lib)
   \<and> (\<not> is_digit c \<longrightarrow>
        careers_date_posted lib (Some (c # s')) = isoformat lib (date_today lib))"
proof -
  have e: "match_date_range [] = None"
    by (simp add: match_date_range_def)
  have ne: "string_of_nat n @ '' days ago'' \<noteq> []" by simp
  have 1: "unjobs_date_posted lib None = Inr (isoformat lib (date_today lib))"
    "unjobs_date_posted lib (Some []) = Inr (isoformat lib (date_today lib))"
    by (simp_all add: unjobs_date_posted_def)
  have 3: "minus_days lib (date_today lib) n = Some d \<longrightarrow>
        unjobs_date_posted lib (Some (string_of_nat n @ '' days ago''))
          = Inr (isoformat lib d)"
    unfolding unjobs_date_posted_def by (simp add: search_days_ago_numeral)
  have 4: "s \<noteq> [] \<and> search_days_ago s = Some n \<and> minus_days lib (date_today lib) n = Some d \<longrightarrow>
        unjobs_date_posted lib (Some s) = Inr (isoformat lib d)"
    unfolding unjobs_date_posted_def by simp
  have 5: "s \<noteq> [] \<and> search_days_ago s = None \<longrightarrow>
        unjobs_date_posted lib (Some s)
          = Inr (isoformat lib
                  (case strptime lib (filter (\<lambda>c. c \<noteq> CHR '','') s) ''%B %d %Y'' of
                     Some a \<Rightarrow> a
                   | None \<Rightarrow>
                       (case strptime lib s ''%d %B %Y'' of
                          Some b \<Rightarrow> b
                        | None \<Rightarrow> date_today lib)))"
    unfolding unjobs_date_posted_def by (simp split: option.split)
  have 6: "careers_date_posted lib x
       = isoformat lib
           (case x of
              None \<Rightarrow> date_today lib
            | Some t \<Rightarrow>
                (case match_date_range t of
                   None \<Rightarrow> date_today lib
                 | Some g \<Rightarrow>
                     (case strptime lib g ''%d %B %Y'' of
                        Some a \<Rightarrow> a
                      | None \<Rightarrow> date_today lib)))"
    unfolding careers_date_posted_def by (simp add: e split: option.split)
  have 7: "careers_date_posted lib (Some (string_of_nat n @ '' days ago''))
       = isoformat lib (date_today lib)"
    unfolding careers_date_posted_def by (simp add: match_date_range_numeral)
  have 8: "\<not> is_digit c \<longrightarrow>
        careers_date_posted lib (Some (c # s')) = isoformat lib (date_today lib)"
    unfolding careers_date_posted_def by (simp add: match_date_range_no_digit)
  from 1 3 4 5 6 7 8 show ?thesis by (intro conjI)
qed

theorem date_normalization_witness:
  "unjobs_date_posted (calendar (Ymd 2024 3 2)) (Some ''3 days ago'') = Inr ''2024-02-28''
   \<and> unjobs_date_posted (calendar (Ymd 2024 3 2)) (Some ''Posted 1 day ago'') = Inr ''2024-03-01''
   \<and> unjobs_date_posted (calendar (Ymd 2024 3 2)) (Some ''July 24, 2023'') = Inr ''2023-07-24''
   \<and> unjobs_date_posted (calendar (Ymd 2024 3 2)) (Some ''24 July 2023'') = Inr ''2023-07-24''
   \<and> unjobs_date_posted (calendar (Ymd 2024 3 2)) (Some ''next week'') = Inr ''2024-03-02''
   \<and> careers_date_posted (calendar (Ymd 2024 3 2)) (Some ''24 July 2023 - 23 August 2023'')
       = ''2023-07-24''
   \<and> careers_date_posted (calendar (Ymd 2024 3 2)) (Some ''3 days ago'') = ''2024-03-02''
   \<and> careers_date_posted (calendar (Ymd 2024 3 2)) (Some ''July 24, 2023'') = ''2024-03-02''
   \<and> unjobs_date_posted (calendar (Ymd 2024 3 2)) (Some (''3'' @ CHR 0xA0 # ''days ago''))
       = Inr ''2024-02-28''
   \<and> careers_date_posted (calendar (Ymd 2024 3 2))
        (Some (''24'' @ CHR 0xA0 # ''July 2023 - 23 August 2023'')) = ''2023-07-24''"
proof -
  let ?lib = "calendar (Ymd 2024 3 2)"
  have m3: "minus_days ?lib (date_today ?lib) 3 = Some (Ymd 2024 2 28)"
    and m1: "minus_days ?lib (date_today ?lib) 1 = Some (Ymd 2024 3 1)"
    by code_simp+
  have n3: "string_of_nat 3 @ '' days ago'' = ''3 days ago''" by code_simp
  have iso: "isoformat ?lib (Ymd 2024 2 28) = ''2024-02-28''"
    "isoformat ?lib (Ymd 2024 3 1) = ''2024-03-01''"
    "isoformat ?lib (date_today ?lib) = ''2024-03-02''"
    by code_simp+
  have a: "unjobs_date_posted ?lib (Some ''3 days ago'') = Inr ''2024-02-28''"
    using date_normalization [where lib = ?lib and n = 3 and d = "Ymd 2024 2 28"] m3
    unfolding n3 iso by blast
  have s1: "''Posted 1 day ago'' \<noteq> [] \<and> search_days_ago ''Posted 1 day ago'' = Some 1"
    by code_simp
  have b: "unjobs_date_posted ?lib (Some ''Posted 1 day ago'') = Inr ''2024-03-01''"
    using date_normalization [where lib = ?lib and n = 1 and d = "Ymd 2024 3 1"
        and s = "''Posted 1 day ago''"] m1 s1
    unfolding iso by blast
  have s2: "''July 24, 2023'' \<noteq> [] \<and> search_days_ago ''July 24, 2023'' = None"
    "''24 July 2023'' \<noteq> [] \<and> search_days_ago ''24 July 2023'' = None"
    "''next week'' \<noteq> [] \<and> search_days_ago ''next week'' = None"
    by code_simp+
  have r: "isoformat ?lib
             (case strptime ?lib (filter (\<lambda>c. c \<noteq> CHR '','') ''July 24, 2023'') ''%B %d %Y'' of
                Some a \<Rightarrow> a
              | None \<Rightarrow>
                  (case strptime ?lib ''July 24, 2023'' ''%d %B %Y'' of
                     Some b \<Rightarrow> b
                   | None \<Rightarrow> date_today ?lib)) = ''2023-07-24''"
    "isoformat ?lib
             (case strptime ?lib (filter (\<lambda>c. c \<noteq> CHR '','') ''24 July 2023'') ''%B %d %Y'' of
                Some a \<Rightarrow> a
              | None \<Rightarrow>
                  (case strptime ?lib ''24 July 2023'' ''%d %B %Y'' of
                     Some b \<Rightarrow> b
                   | None \<Rightarrow> date_today ?lib)) = ''2023-07-24''"
    "isoformat ?lib
             (case strptime ?lib (filter (\<lambda>c. c \<noteq> CHR '','') ''next week'') ''%B %d %Y'' of
                Some a \<Rightarrow> a
              | None \<Rightarrow>
                  (case strptime ?lib ''next week'' ''%d %B %Y'' of
                     Some b \<Rightarrow> b
                   | None \<Rightarrow> date_today ?lib)) = ''2024-03-02''"
    by code_simp+
  have c: "unjobs_date_posted ?lib (Some ''July 24, 2023'') = Inr ''2023-07-24''"
    using date_normalization [where lib = ?lib and s = "''July 24, 2023''"] s2(1)
    unfolding r by blast
  have d: "unjobs_date_posted ?lib (Some ''24 July 2023'') = Inr ''2023-07-24''"
    using date_normalization [where lib = ?lib and s = "''24 July 2023''"] s2(2)
    unfolding r by blast
  have e: "unjobs_date_posted ?lib (Some ''next week'') = Inr ''2024-03-02''"
    using date_normalization [where lib = ?lib and s = "''next week''"] s2(3)
    unfolding r by blast
  have q: "isoformat ?lib
           (case Some ''24 July 2023 - 23 August 2023'' of
              None \<Rightarrow> date_today ?lib
            | Some t \<Rightarrow>
                (case match_date_range t of
                   None \<Rightarrow> date_today ?lib
                 | Some g \<Rightarrow>
                     (case strptime ?lib g ''%d %B %Y'' of
                        Some a \<Rightarrow> a
                      | None \<Rightarrow> date_today ?lib))) = ''2023-07-24''"
    by code_simp
  have f: "careers_date_posted ?lib (Some ''24 July 2023 - 23 August 2023'') = ''2023-07-24''"
    using date_normalization [where lib = ?lib and x = "Some ''24 July 2023 - 23 August 2023''"]
    unfolding q by blast
  have g: "careers_date_posted ?lib (Some ''3 days ago'') = ''2024-03-02''"
    using date_normalization [where lib = ?lib and n = 3]
    unfolding n3 iso by blast
  have nd: "\<not> is_digit (CHR ''J'')" by code_simp
  have h: "careers_date_posted ?lib (Some ''July 24, 2023'') = ''2024-03-02''"
    using date_normalization [where lib = ?lib and c = "CHR ''J''" and s' = "''uly 24, 2023''"] nd
    unfolding iso by blast
  have s3: "''3'' @ CHR 0xA0 # ''days ago'' \<noteq> []
            \<and> search_days_ago (''3'' @ CHR 0xA0 # ''days ago'') = Some 3"
    by code_simp
  have k: "unjobs_date_posted ?lib (Some (''3'' @ CHR 0xA0 # ''days ago'')) = Inr ''2024-02-28''"
    using date_normalization [where lib = ?lib and n = 3 and d = "Ymd 2024 2 28"
        and s = "''3'' @ CHR 0xA0 # ''days ago''"] m3 s3
    unfolding iso by blast
  have q': "isoformat ?lib
           (case Some (''24'' @ CHR 0xA0 # ''July 2023 - 23 August 2023'') of
              None \<Rightarrow> date_today ?lib
            | Some t \<Rightarrow>
                (case match_date_range t of
                   None \<Rightarrow> date_today ?lib
                 | Some g \<Rightarrow>
                     (case strptime ?lib g ''%d %B %Y'' of
                        Some a \<Rightarrow> a
                      | None \<Rightarrow> date_today ?lib))) = ''2023-07-24''"
    by code_simp
  have l: "careers_date_posted ?lib (Some (''24'' @ CHR 0xA0 # ''July 2023 - 23 August 2023''))
             = ''2023-07-24''"
    using date_normalization [where lib = ?lib
        and x = "Some (''24'' @ CHR 0xA0 # ''July 2023 - 23 August 2023'')"]
    unfolding q' by blast
  from a b c d e f g h k l show ?thesis by (intro conjI)
qed

section \<open>The run: what the loop and main do\<close>

lemma filtered_job_url:
  "filter_and_process_job clk m job kw = Some r \<Longrightarrow> sj_url r = job ''url''"
  by (auto simp: filter_and_process_job_def split: if_splits)

lemma save_job_listing_db:
  "save_job_listing fault db r = (res, db') \<Longrightarrow> db' = db \<or> db' = db @ [r]"
  by (auto simp: save_job_listing_def split: option.splits if_splits)

lemma process_jobs_effect:
  "process_jobs w ex kw i jobs st = (st', x) \<Longrightarrow>
     \<exists>t new. rs_trace st' = rs_trace st @ t \<and> rs_db st' = rs_db st @ new
       \<and> list_all (loop_event ex) t \<and> list_all (\<lambda>r. sj_url r \<notin> ex) new"
proof (induction jobs arbitrary: i st st' x)
  case Nil
  then show ?case by auto
next
  case (Cons job rest)
  show ?case
  proof (cases "job ''url'' \<in> ex")
    case True
    with Cons.prems have "process_jobs w ex kw (Suc i) rest st = (st', x)" by simp
    from Cons.IH [OF this] show ?thesis .
  next
    case notin: False
    show ?thesis
    proof (cases "filter_and_process_job (clock_at w i) (MIN_SKILL_MATCHES w) job kw")
      case None
      let ?st = "st\<lparr> rs_trace := rs_trace st @ [Filter_called job] \<rparr>"
      from Cons.prems notin None
      have "process_jobs w ex kw (Suc i) rest ?st = (st', x)" by simp
      from Cons.IH [OF this] obtain t new where
        "rs_trace st' = rs_trace ?st @ t" "rs_db st' = rs_db ?st @ new"
        "list_all (loop_event ex) t" "list_all (\<lambda>r. sj_url r \<notin> ex) new"
        by blast
      then have "rs_trace st' = rs_trace st @ (Filter_called job # t)"
        "rs_db st' = rs_db st @ new"
        "list_all (loop_event ex) (Filter_called job # t)"
        "list_all (\<lambda>r. sj_url r \<notin> ex) new"
        using notin by (simp_all add: loop_event_def)
      then show ?thesis by blast
    next
      case (Some fj)
      then have u: "sj_url fj \<notin> ex" using notin by (simp add: filtered_job_url)
      obtain res db' where sv: "save_job_listing (db_fault w) (rs_db st) fj = (res, db')"
        by (cases "save_job_listing (db_fault w) (rs_db st) fj") auto
      from save_job_listing_db [OF sv] obtain n0 where
        n0: "db' = rs_db st @ n0" "list_all (\<lambda>r. sj_url r \<notin> ex) n0"
        using u by (elim disjE) (auto intro: exI [of _ "[]"])
      let ?t0 = "[Filter_called job, Save_called fj]"
      have t0: "list_all (loop_event ex) ?t0" using u notin by (simp add: loop_event_def)
      show ?thesis
      proof (cases res)
        case (Inl e)
        with Cons.prems notin Some sv
        have "st' = st\<lparr> rs_db := db', rs_trace := rs_trace st @ ?t0 \<rparr>" by simp
        then have "rs_trace st' = rs_trace st @ ?t0" "rs_db st' = rs_db st @ n0"
          using n0 by simp_all
        with t0 n0 show ?thesis by blast
      next
        case (Inr saved)
        let ?st = "st\<lparr> rs_db := db',
                        new_jobs_for_notification := new_jobs_for_notification st @ [fj],
                        rs_trace := rs_trace st @ ?t0 \<rparr>"
        from Cons.prems notin Some sv Inr
        have "process_jobs w ex kw (Suc i) rest ?st = (st', x)" by simp
        from Cons.IH [OF this] obtain t new where
          "rs_trace st' = rs_trace ?st @ t" "rs_db st' = rs_db ?st @ new"
          "list_all (loop_event ex) t" "list_all (\<lambda>r. sj_url r \<notin> ex) new"
          by blast
        then have "rs_trace st' = rs_trace st @ (?t0 @ t)"
          "rs_db st' = rs_db st @ (n0 @ new)"
          "list_all (loop_event ex) (?t0 @ t)"
          "list_all (\<lambda>r. sj_url r \<notin> ex) (n0 @ new)"
          using n0 t0 by simp_all
        then show ?thesis by blast
      qed
    qed
  qed
qed

lemma main_queries:
  "create_search_query kw ''unjobs''
     = Query_text (str_join '' '' (roles kw @ skills kw @ [''remote'', ''ngo'', ''united nations'']))"
  "create_search_query kw ''wellfound''
     = Query_text (str_join ''+'' (roles kw @ skills kw) @ ''+remote'')"
  by (simp_all add: create_search_query_def)

lemma main_trace_shape:
  assumes "main w = (st, x)"
  shows "\<exists>started t ns quit new.
      rs_trace st = started @ t @ map Notified ns @ quit
      \<and> rs_db st = database w @ new
      \<and> list_all (loop_event (get_all_job_urls (database w))) t
      \<and> list_all (\<lambda>r. sj_url r \<notin> get_all_job_urls (database w)) new
      \<and> (started = [] \<or> started = [Driver_started])
      \<and> (x \<noteq> None \<longrightarrow> quit = [] \<and> ns = [])
      \<and> (x = None \<longrightarrow> quit = (if started = [] then [] else [Driver_quit]))"
proof (cases "parse_resume_keywords (resume_pdf w)")
  case None
  with assms have "rs_trace st = [] @ [] @ map Notified [] @ []" "rs_db st = database w @ []"
    "x = None"
    by (auto simp: main_def)
  then show ?thesis by (intro exI [of _ "[]"]) simp
next
  case (Some kw)
  define ex where "ex = get_all_job_urls (database w)"
  define drv where "drv = (case selenium_start w of Inl e \<Rightarrow> None | Inr d \<Rightarrow> d)"
  define started where "started = (case drv of None \<Rightarrow> [] | Some d \<Rightarrow> [Driver_started])"
  define st1 where
    "st1 = \<lparr> rs_db = database w, new_jobs_for_notification = [], rs_trace = started \<rparr>"
  define uq where
    "uq = str_join '' '' (roles kw @ skills kw @ [''remote'', ''ngo'', ''united nations''])"
  define wq where "wq = str_join ''+'' (roles kw @ skills kw) @ ''+remote''"
  have st: "started = [] \<or> started = [Driver_started]"
    by (simp add: started_def split: option.split)
  have m: "main w =
      (case snd (scrape_all_jobs (runs w) drv uq wq) of
         Inl e \<Rightarrow> (st1, Some e)
       | Inr all_jobs \<Rightarrow>
           (case process_jobs w ex kw 0 all_jobs st1 of
              (st2, Some e) \<Rightarrow> (st2, Some e)
            | (st2, None) \<Rightarrow>
                (let st3 = st2\<lparr> rs_trace := rs_trace st2
                             @ map Notified (new_jobs_for_notification st2) \<rparr>
                 in case drv of
                      None \<Rightarrow> (st3, None)
                    | Some d \<Rightarrow> (st3\<lparr> rs_trace := rs_trace st3 @ [Driver_quit] \<rparr>, None))))"
    unfolding main_def Some main_queries Let_def ex_def drv_def st1_def started_def uq_def wq_def
    by (simp split: option.split sum.split)
  show ?thesis
  proof (cases "snd (scrape_all_jobs (runs w) drv uq wq)")
    case (Inl e)
    with m assms have "st = st1" "x = Some e" by simp_all
    then have "rs_trace st = started @ [] @ map Notified [] @ []"
      "rs_db st = database w @ []" "x \<noteq> None"
      by (simp_all add: st1_def)
    with st show ?thesis
      by (intro exI [of _ started] exI [of _ "[]"]) simp
  next
    case (Inr all_jobs)
    obtain st2 y where p: "process_jobs w ex kw 0 all_jobs st1 = (st2, y)"
      by (cases "process_jobs w ex kw 0 all_jobs st1") auto
    from process_jobs_effect [OF p] obtain t new where
      e: "rs_trace st2 = started @ t" "rs_db st2 = database w @ new"
         "list_all (loop_event ex) t" "list_all (\<lambda>r. sj_url r \<notin> ex) new"
      by (auto simp: st1_def)
    show ?thesis
    proof (cases y)
      case (Some e')
      with m Inr p assms have "st = st2" "x = Some e'" by simp_all
      with e have "rs_trace st = started @ t @ map Notified [] @ []"
        "rs_db st = database w @ new" "x \<noteq> None"
        by simp_all
      with st e show ?thesis
        unfolding ex_def
        by (intro exI [of _ started] exI [of _ t] exI [of _ "[]"] exI [of _ new]) simp
    next
      case None
      let ?ns = "new_jobs_for_notification st2"
      let ?quit = "if started = [] then [] else [Driver_quit]"
      from m Inr p None assms
      have "rs_trace st = started @ t @ map Notified ?ns @ ?quit"
        "rs_db st = database w @ new" "x = None"
        using e by (auto simp: Let_def started_def split: option.splits)
      with st e show ?thesis
        unfolding ex_def
        by (intro exI [of _ started] exI [of _ t] exI [of _ ?ns] exI [of _ ?quit]
              exI [of _ new]) simp
    qed
  qed
qed

lemma loop_event_simps:
  "loop_event ex Driver_started = False"
  "loop_event ex Driver_quit = False"
  "loop_event ex (Notified r) = False"
  "loop_event ex (Filter_called J) = (J ''url'' \<notin> ex)"
  "loop_event ex (Save_called r) = (sj_url r \<notin> ex)"
  by (simp_all add: loop_event_def)

lemma main_dedup:
  assumes "main w = (st, x)" and "u \<in> get_all_job_urls (database w)"
  shows "J ''url'' = u \<longrightarrow> Filter_called J \<notin> set (rs_trace st)"
    and "sj_url r = u \<longrightarrow> Save_called r \<notin> set (rs_trace st)"
    and "filter (\<lambda>r. sj_url r = u) (rs_db st) = filter (\<lambda>r. sj_url r = u) (database w)"
proof -
  from main_trace_shape [OF assms(1)] obtain started t ns quit new where
    s: "rs_trace st = started @ t @ map Notified ns @ quit"
       "rs_db st = database w @ new"
       "list_all (loop_event (get_all_job_urls (database w))) t"
       "list_all (\<lambda>r. sj_url r \<notin> get_all_job_urls (database w)) new"
       "started = [] \<or> started = [Driver_started]"
       "x \<noteq> None \<longrightarrow> quit = [] \<and> ns = []"
       "x = None \<longrightarrow> quit = (if started = [] then [] else [Driver_quit])"
    by blast
  have q: "quit = [] \<or> quit = [Driver_quit]" using s(6,7) by (cases x) auto
  show "J ''url'' = u \<longrightarrow> Filter_called J \<notin> set (rs_trace st)"
    using s(1,3,5) q assms(2) by (auto simp: list_all_iff loop_event_simps)
  show "sj_url r = u \<longrightarrow> Save_called r \<notin> set (rs_trace st)"
    using s(1,3,5) q assms(2) by (auto simp: list_all_iff loop_event_simps)
  have "filter (\<lambda>r. sj_url r = u) new = []"
    using s(4) assms(2) by (auto simp: list_all_iff filter_empty_conv)
  then show "filter (\<lambda>r. sj_url r = u) (rs_db st) = filter (\<lambda>r. sj_url r = u) (database w)"
    using s(2) by simp
qed

lemma main_driver_release:
  assumes "main w = (st, x)"
  shows "x = None \<and> Driver_started \<in> set (rs_trace st) \<longrightarrow>
           hd (rs_trace st) = Driver_started \<and> last (rs_trace st) = Driver_quit
           \<and> count_list (rs_trace st) Driver_started = 1
           \<and> count_list (rs_trace st) Driver_quit = 1"
    and "x \<noteq> None \<longrightarrow> Driver_quit \<notin> set (rs_trace st)"
proof -
  from main_trace_shape [OF assms(1)] obtain started t ns quit new where
    s: "rs_trace st = started @ t @ map Notified ns @ quit"
       "list_all (loop_event (get_all_job_urls (database w))) t"
       "started = [] \<or> started = [Driver_started]"
       "x \<noteq> None \<longrightarrow> quit = [] \<and> ns = []"
       "x = None \<longrightarrow> quit = (if started = [] then [] else [Driver_quit])"
    by blast
  have t: "Driver_started \<notin> set t" "Driver_quit \<notin> set t"
    using s(2) by (auto simp: list_all_iff loop_event_simps)
  have n: "Driver_started \<notin> set (map Notified ns)" "Driver_quit \<notin> set (map Notified ns)"
    by auto
  have c: "count_list (t @ map Notified ns) Driver_started = 0"
    "count_list (t @ map Notified ns) Driver_quit = 0"
    using t n by (simp_all add: count_list_0_iff)
  show "x \<noteq> None \<longrightarrow> Driver_quit \<notin> set (rs_trace st)"
    using s t n by auto
  show "x = None \<and> Driver_started \<in> set (rs_trace st) \<longrightarrow>
           hd (rs_trace st) = Driver_started \<and> last (rs_trace st) = Driver_quit
           \<and> count_list (rs_trace st) Driver_started = 1
           \<and> count_list (rs_trace st) Driver_quit = 1"
  proof (intro impI, elim conjE)
    assume x: "x = None" and d: "Driver_started \<in> set (rs_trace st)"
    have "started \<noteq> []"
    proof
      assume "started = []"
      with s(5) x have "quit = []" by simp
      with \<open>started = []\<close> s(1) d t n show False by auto
    qed
    with s(3,5) x have st: "started = [Driver_started]" "quit = [Driver_quit]" by auto
    have tr: "rs_trace st = Driver_started # (t @ map Notified ns) @ [Driver_quit]"
      using s(1) st by simp
    show "hd (rs_trace st) = Driver_started \<and> last (rs_trace st) = Driver_quit
           \<and> count_list (rs_trace st) Driver_started = 1
           \<and> count_list (rs_trace st) Driver_quit = 1"
      unfolding tr using c by (simp del: append_assoc)
  qed
qed

lemma main_started:
  assumes "parse_resume_keywords (resume_pdf w) = Some kw"
    and "selenium_start w = Inr (Some d)"
  shows "Driver_started \<in> set (rs_trace (fst (main w)))"
proof -
  define ex where "ex = get_all_job_urls (database w)"
  define st1 where
    "st1 = \<lparr> rs_db = database w, new_jobs_for_notification = [],
             rs_trace = [Driver_started] \<rparr>"
  define uq where
    "uq = str_join '' '' (roles kw @ skills kw @ [''remote'', ''ngo'', ''united nations''])"
  define wq where "wq = str_join ''+'' (roles kw @ skills kw) @ ''+remote''"
  have m: "main w =
      (case snd (scrape_all_jobs (runs w) (Some d) uq wq) of
         Inl e \<Rightarrow> (st1, Some e)
       | Inr all_jobs \<Rightarrow>
           (case process_jobs w ex kw 0 all_jobs st1 of
              (st2, Some e) \<Rightarrow> (st2, Some e)
            | (st2, None) \<Rightarrow>
                (st2\<lparr> rs_trace := (rs_trace st2
                          @ map Notified (new_jobs_for_notification st2)) @ [Driver_quit] \<rparr>,
                 None)))"
    unfolding main_def assms main_queries Let_def ex_def st1_def uq_def wq_def
    by (simp split: option.split sum.split prod.split)
  show ?thesis
  proof (cases "snd (scrape_all_jobs (runs w) (Some d) uq wq)")
    case (Inl e)
    with m show ?thesis by (simp add: st1_def)
  next
    case (Inr all_jobs)
    obtain st2 y where p: "process_jobs w ex kw 0 all_jobs st1 = (st2, y)"
      by (cases "process_jobs w ex kw 0 all_jobs st1") auto
    from process_jobs_effect [OF p] obtain t where "rs_trace st2 = Driver_started # t"
      by (auto simp: st1_def)
    with m Inr p show ?thesis by (cases y) simp_all
  qed
qed

section \<open>Deduplication and the driver session\<close>

text \<open>
  C5. In a run, a scraped job whose url is in the table when the run starts is never
  passed to the filter and never passed to the insert, and the rows of the table with
  that url at the end of the run are those of the start; and the insert of a record
  whose url (not \<open>NULL\<close>) is already in the table returns false and leaves the table
  as it is.
\<close>

theorem dedup_idempotence:
  "(main w = (st, x) \<and> u \<in> get_all_job_urls (database w) \<longrightarrow>
      (J ''url'' = u \<longrightarrow> Filter_called J \<notin> set (rs_trace st))
      \<and> (sj_url r = u \<longrightarrow> Save_called r \<notin> set (rs_trace st))
      \<and> filter (\<lambda>r. sj_url r = u) (rs_db st) = filter (\<lambda>r. sj_url r = u) (database w))
   \<and> (fault job = None \<and> sj_url job \<noteq> None \<and> sj_url job \<in> get_all_job_urls db \<longrightarrow>
        save_job_listing fault db job = (Inr False, db))"
proof (intro conjI impI)
  assume "fault job = None \<and> sj_url job \<noteq> None \<and> sj_url job \<in> get_all_job_urls db"
  then show "save_job_listing fault db job = (Inr False, db)"
    by (simp add: save_job_listing_def get_all_job_urls_def)
next
  assume a: "main w = (st, x) \<and> u \<in> get_all_job_urls (database w)"
  then have m: "main w = (st, x)" and u: "u \<in> get_all_job_urls (database w)" by simp_all
  {
    assume "J ''url'' = u"
    then show "Filter_called J \<notin> set (rs_trace st)"
      using main_dedup(1) [OF m u] by blast
  }
  {
    assume "sj_url r = u"
    then show "Save_called r \<notin> set (rs_trace st)"
      using main_dedup(2) [OF m u] by blast
  }
  show "filter (\<lambda>r. sj_url r = u) (rs_db st) = filter (\<lambda>r. sj_url r = u) (database w)"
    by (rule main_dedup(3) [OF m u])
qed

theorem dedup_idempotence_witness:
  "Some ''https://example.org/jobs/2'' \<in> get_all_job_urls (database example_world)
   \<and> score_job ''Acme Global Inc.'' ''url'' = Some ''https://example.org/jobs/2''
   \<and> Filter_called (score_job ''Acme Global Inc.'') \<notin> set (rs_trace (fst (main example_world)))
   \<and> filter (\<lambda>r. sj_url r = Some ''https://example.org/jobs/2'') (rs_db (fst (main example_world)))
       = [stored_row]
   \<and> map sj_url (rs_db (fst (main example_world)))
       = [Some ''https://example.org/jobs/2'', Some ''https://example.org/jobs/1'']
   \<and> save_job_listing (\<lambda>job. None) [stored_row] stored_row = (Inr False, [stored_row])"
proof -
  let ?u = "Some ''https://example.org/jobs/2''"
  have u: "?u \<in> get_all_job_urls (database example_world)"
    by (simp add: get_all_job_urls_def example_world_def stored_row_def)
  have j: "score_job ''Acme Global Inc.'' ''url'' = ?u"
    by (simp add: score_job_def)
  have m: "main example_world = (fst (main example_world), snd (main example_world))"
    by simp
  have db: "filter (\<lambda>r. sj_url r = ?u) (database example_world) = [stored_row]"
    by (simp add: example_world_def stored_row_def)
  have urls: "map sj_url (rs_db (fst (main example_world)))
       = [Some ''https://example.org/jobs/2'', Some ''https://example.org/jobs/1'']"
    by code_simp
  have f: "(\<lambda>job. None :: exn option) stored_row = None \<and> sj_url stored_row \<noteq> None
           \<and> sj_url stored_row \<in> get_all_job_urls [stored_row]"
    by (simp add: get_all_job_urls_def stored_row_def)
  have a: "Filter_called (score_job ''Acme Global Inc.'') \<notin> set (rs_trace (fst (main example_world)))"
    "filter (\<lambda>r. sj_url r = ?u) (rs_db (fst (main example_world))) = [stored_row]"
    using dedup_idempotence [where w = example_world and st = "fst (main example_world)"
        and x = "snd (main example_world)" and u = ?u and J = "score_job ''Acme Global Inc.''"]
      m u j db
    by simp_all
  have s: "save_job_listing (\<lambda>job. None) [stored_row] stored_row = (Inr False, [stored_row])"
    using dedup_idempotence [where fault = "\<lambda>job. None" and job = stored_row
        and db = "[stored_row]"] f
    by blast
  from u j a urls s show ?thesis by (intro conjI)
qed

text \<open>
  C9, as stated, fails: in a run whose driver session has started and whose insert
  meets a locked database, the exception ends the run and \<open>driver.quit()\<close> is not called.
\<close>

theorem driver_not_released_on_exception:
  "snd (main locked_world) = Some OperationalError
   \<and> Driver_started \<in> set (rs_trace (fst (main locked_world)))
   \<and> Driver_quit \<notin> set (rs_trace (fst (main locked_world)))"
proof -
  have x: "snd (main locked_world) = Some OperationalError" by code_simp
  have p: "parse_resume_keywords (resume_pdf locked_world)
             = Some \<lparr> skills = [''python'', ''django'', ''aws'', ''docker''],
                      roles = [''backend developer''],
                      preferences = DEFAULT_PREFERENCES \<rparr>"
    by code_simp
  have d: "selenium_start locked_world = Inr (Some example_driver)"
    by (simp add: locked_world_def example_world_def)
  have m: "main locked_world = (fst (main locked_world), snd (main locked_world))" by simp
  from main_started [OF p d] main_driver_release(2) [OF m] x show ?thesis by simp
qed

text \<open>
  C9, amended. A driver session starts in every run that has parsed the resume and
  whose \<open>get_selenium_driver()\<close> returns a driver. In every run in which a session has
  started and which no exception ends, the session starts first and once and
  \<open>driver.quit()\<close> is called last and once. \<open>main\<close> has no handler around the steps that
  follow the start: a run that an exception ends has not called \<open>driver.quit()\<close>.
\<close>

theorem driver_release:
  "(parse_resume_keywords (resume_pdf w) = Some kw \<and> selenium_start w = Inr (Some d) \<longrightarrow>
      Driver_started \<in> set (rs_trace (fst (main w))))
   \<and> (main w = (st, None) \<and> Driver_started \<in> set (rs_trace st) \<longrightarrow>
        hd (rs_trace st) = Driver_started \<and> last (rs_trace st) = Driver_quit
        \<and> count_list (rs_trace st) Driver_started = 1
        \<and> count_list (rs_trace st) Driver_quit = 1)
   \<and> (main w = (st, Some e) \<longrightarrow> Driver_quit \<notin> set (rs_trace st))"
proof (intro conjI impI)
  assume "parse_resume_keywords (resume_pdf w) = Some kw \<and> selenium_start w = Inr (Some d)"
  then show "Driver_started \<in> set (rs_trace (fst (main w)))"
    using main_started by blast
next
  assume a: "main w = (st, None) \<and> Driver_started \<in> set (rs_trace st)"
  then have m: "main w = (st, None)" by simp
  from main_driver_release(1) [OF m] a
  show "hd (rs_trace st) = Driver_started" "last (rs_trace st) = Driver_quit"
    "count_list (rs_trace st) Driver_started = 1" "count_list (rs_trace st) Driver_quit = 1"
    by simp_all
next
  assume "main w = (st, Some e)"
  from main_driver_release(2) [OF this] show "Driver_quit \<notin> set (rs_trace st)" by simp
qed

theorem driver_release_witness:
  "main example_world = (fst (main example_world), None)
   \<and> Driver_started \<in> set (rs_trace (fst (main example_world)))
   \<and> last (rs_trace (fst (main example_world))) = Driver_quit
   \<and> count_list (rs_trace (fst (main example_world))) Driver_quit = 1
   \<and> main locked_world = (fst (main locked_world), Some OperationalError)
   \<and> Driver_quit \<notin> set (rs_trace (fst (main locked_world)))"
proof -
  have x: "snd (main example_world) = None" by code_simp
  then have m: "main example_world = (fst (main example_world), None)"
    by (metis prod.collapse)
  have y: "snd (main locked_world) = Some OperationalError" by code_simp
  then have l: "main locked_world = (fst (main locked_world), Some OperationalError)"
    by (metis prod.collapse)
  have p: "parse_resume_keywords (resume_pdf example_world)
             = Some \<lparr> skills = [''python'', ''django'', ''aws'', ''docker''],
                      roles = [''backend developer''],
                      preferences = DEFAULT_PREFERENCES \<rparr>"
    by code_simp
  have p': "selenium_start example_world = Inr (Some example_driver)"
    by (simp add: example_world_def)
  note t = driver_release [where w = example_world and st = "fst (main example_world)"
      and d = example_driver]
  from t p p' have s: "Driver_started \<in> set (rs_trace (fst (main example_world)))"
    by blast
  from t m s have q: "last (rs_trace (fst (main example_world))) = Driver_quit"
    "count_list (rs_trace (fst (main example_world))) Driver_quit = 1"
    by blast+
  from driver_release [where w = locked_world and st = "fst (main locked_world)"
      and e = OperationalError] l
  have n: "Driver_quit \<notin> set (rs_trace (fst (main locked_world)))" by blast
  from m s q l n show ?thesis by (intro conjI)
qed

section \<open>The aggregator\<close>

text \<open>
  C4, as stated, fails: when the Wellfound adapter raises, \<open>scrape_all_jobs\<close> raises too
  and returns no list, though the two adapters before it have returned their jobs; and
  the Microsoft and WFP adapters are not among the adapters it calls.
\<close>

theorem aggregator_no_isolation:
  "run_unjobs_org wellfound_raises ''q'' = Inr [score_job ''Acme Global Inc.'']
   \<and> scrape_all_jobs wellfound_raises None ''q'' ''q''
       = ([Unjobs, CareersUN, Wellfound], Inl OtherException)
   \<and> fst (scrape_all_jobs example_runs None ''q'' ''q'')
       = [Unjobs, CareersUN, Wellfound, LinkedIn]
   \<and> MicrosoftCareers \<notin> set (fst (scrape_all_jobs example_runs None ''q'' ''q''))
   \<and> WFPCareers \<notin> set (fst (scrape_all_jobs example_runs None ''q'' ''q''))"
  by (simp add: scrape_all_jobs_def wellfound_raises_def example_runs_def)

text \<open>
  C4, amended. \<open>scrape_all_jobs\<close> calls the unjobs.org, careers.un.org and Wellfound
  adapters and the LinkedIn stub, in that order and each at most once, and no other
  adapter; when the three adapters return, it has called each of the four once and
  returns the concatenation of their results in call order. It has no handler of its
  own: an exception that leaves an adapter leaves \<open>scrape_all_jobs\<close>, the adapters after
  it are not called and no list is returned.
\<close>

theorem aggregator_order:
  "prefix (fst (scrape_all_jobs ads drv uq wq)) [Unjobs, CareersUN, Wellfound, LinkedIn]
   \<and> (run_unjobs_org ads uq = Inr a \<and> run_careers_un_org ads = Inr b
        \<and> run_wellfound ads drv wq = Inr c \<longrightarrow>
        scrape_all_jobs ads drv uq wq
          = ([Unjobs, CareersUN, Wellfound, LinkedIn], Inr (a @ b @ c)))
   \<and> (run_unjobs_org ads uq = Inl e \<longrightarrow>
        scrape_all_jobs ads drv uq wq = ([Unjobs], Inl e))
   \<and> (run_unjobs_org ads uq = Inr a \<and> run_careers_un_org ads = Inl e \<longrightarrow>
        scrape_all_jobs ads drv uq wq = ([Unjobs, CareersUN], Inl e))
   \<and> (run_unjobs_org ads uq = Inr a \<and> run_careers_un_org ads = Inr b
        \<and> run_wellfound ads drv wq = Inl e \<longrightarrow>
        scrape_all_jobs ads drv uq wq = ([Unjobs, CareersUN, Wellfound], Inl e))"
  by (auto simp: scrape_all_jobs_def scrape_linkedin_jobs_def split: sum.splits)

theorem aggregator_order_witness:
  "scrape_all_jobs example_runs None ''q'' ''q''
     = ([Unjobs, CareersUN, Wellfound, LinkedIn],
        Inr [score_job ''Acme Global Inc.'',
             example_job ''Remote - Worldwide'' ''python django aws api design''])
   \<and> scrape_all_jobs wellfound_raises None ''q'' ''q''
       = ([Unjobs, CareersUN, Wellfound], Inl OtherException)"
proof -
  have r: "run_unjobs_org example_runs ''q'' = Inr [score_job ''Acme Global Inc.'']
           \<and> run_careers_un_org example_runs
               = Inr [example_job ''Remote - Worldwide'' ''python django aws api design'']
           \<and> run_wellfound example_runs None ''q'' = Inr []"
    by (simp add: example_runs_def)
  have f: "run_unjobs_org wellfound_raises ''q'' = Inr [score_job ''Acme Global Inc.'']
           \<and> run_careers_un_org wellfound_raises
               = Inr [example_job ''Remote - Worldwide'' ''python django aws api design'']
           \<and> run_wellfound wellfound_raises None ''q'' = Inl OtherException"
    by (simp add: wellfound_raises_def example_runs_def)
  from aggregator_order [where ads = example_runs and drv = None and uq = "''q''"
      and wq = "''q''" and a = "[score_job ''Acme Global Inc.'']"
      and b = "[example_job ''Remote - Worldwide'' ''python django aws api design'']"
      and c = "[]"] r
  have 1: "scrape_all_jobs example_runs None ''q'' ''q''
     = ([Unjobs, CareersUN, Wellfound, LinkedIn],
        Inr [score_job ''Acme Global Inc.'',
             example_job ''Remote - Worldwide'' ''python django aws api design''])"
    by simp
  from aggregator_order [where ads = wellfound_raises and drv = None and uq = "''q''"
      and wq = "''q''" and a = "[score_job ''Acme Global Inc.'']"
      and b = "[example_job ''Remote - Worldwide'' ''python django aws api design'']"
      and e = OtherException] f
  have 2: "scrape_all_jobs wellfound_raises None ''q'' ''q''
       = ([Unjobs, CareersUN, Wellfound], Inl OtherException)"
    by blast
  from 1 2 show ?thesis by simp
qed

section \<open>The unjobs.org adapter: the placeholder description\<close>

lemma unjobs_card_job_description:
  "unjobs_card_job lib w job_card = Inr j \<Longrightarrow> j ''description'' = Some unjobs_placeholder"
  by (auto simp: unjobs_card_job_def Let_def split: sum.splits)

lemma unjobs_cards_loop_description:
  "list_all (\<lambda>j. j ''description'' = Some unjobs_placeholder) jobs \<Longrightarrow>
   list_all (\<lambda>j. j ''description'' = Some unjobs_placeholder)
     (unjobs_cards_loop lib w job_cards jobs)"
proof (induction job_cards arbitrary: jobs)
  case Nil
  then show ?case by simp
next
  case (Cons job_card job_cards)
  show ?case
  proof (cases "unjobs_card_job lib w job_card")
    case (Inl e)
    with Cons show ?thesis by simp
  next
    case (Inr j)
    then have "list_all (\<lambda>j. j ''description'' = Some unjobs_placeholder) (jobs @ [j])"
      using Cons.prems unjobs_card_job_description [OF Inr] by simp
    from Cons.IH [OF this] Inr show ?thesis by simp
  qed
qed

lemma scrape_unjobs_org_description:
  "j \<in> set (scrape_unjobs_org lib w query) \<Longrightarrow> j ''description'' = Some unjobs_placeholder"
proof -
  assume j: "j \<in> set (scrape_unjobs_org lib w query)"
  have "list_all (\<lambda>j. j ''description'' = Some unjobs_placeholder)
          (scrape_unjobs_org lib w query)"
    unfolding scrape_unjobs_org_def Let_def
    by (auto split: sum.split intro: unjobs_cards_loop_description)
  with j show ?thesis by (simp add: list_all_iff)
qed

lemma placeholder_lower:
  "lower unjobs_placeholder = ''aggregator listing - refer to external url for full details.''"
  by code_simp

lemma placeholder_has_no_keyword:
  "\<not> str_in ''global'' (lower unjobs_placeholder)"
  "\<not> str_in ''international'' (lower unjobs_placeholder)"
  "\<not> str_in ''worldwide'' (lower unjobs_placeholder)"
  "\<not> str_in ''ngo'' (lower unjobs_placeholder)"
  "\<not> str_in ''non-profit'' (lower unjobs_placeholder)"
  "\<not> str_in ''foundation'' (lower unjobs_placeholder)"
  "\<not> str_in ''charity'' (lower unjobs_placeholder)"
  "\<not> str_in ''united nations'' (lower unjobs_placeholder)"
  "\<not> str_in ''wfp'' (lower unjobs_placeholder)"
  by code_simp+

text \<open>
  C10. Every record the unjobs.org adapter emits has the fixed placeholder as its
  description. So on such a record the filter's tests on the description see the
  placeholder only: international and NGO are decided by the company alone (no keyword
  of either list occurs in the placeholder), and roles and skills are matched against
  the title and the lower-cased placeholder.
\<close>

theorem unjobs_description_is_placeholder:
  "j \<in> set (scrape_unjobs_org lib w query) \<longrightarrow>
     j ''description'' = Some ''Aggregator listing - refer to external URL for full details.''
     \<and> is_international_company j
         = (let company = lower (dict_get j ''company'' '''')
            in str_in ''global'' company \<or> str_in ''international'' company
               \<or> str_in ''inc.'' company \<or> str_in ''corp.'' company)
     \<and> is_ngo j
         = (let company = lower (dict_get j ''company'' '''')
            in str_in ''ngo'' company \<or> str_in ''non-profit'' company
               \<or> str_in ''foundation'' company \<or> str_in ''charity'' company
               \<or> str_in ''united nations'' company \<or> str_in ''wfp'' company)
     \<and> role_match j kw
         = list_ex (\<lambda>role. str_in (lower role) (lower (dict_get j ''title'' ''''))
                       \<or> str_in (lower role)
                            ''aggregator listing - refer to external url for full details.'')
             (roles kw)
     \<and> skills_match_count j kw
         = length (filter (\<lambda>skill.
                       str_in (lower skill)
                         ''aggregator listing - refer to external url for full details.''
                       \<or> str_in (lower skill) (lower (dict_get j ''title'' '''')))
                     (skills kw))"
proof
  assume "j \<in> set (scrape_unjobs_org lib w query)"
  then have d: "j ''description'' = Some unjobs_placeholder"
    by (rule scrape_unjobs_org_description)
  then have g: "dict_get j ''description'' '''' = unjobs_placeholder"
    by (simp add: dict_get_def)
  have 1: "j ''description'' = Some ''Aggregator listing - refer to external URL for full details.''"
    using d by (simp add: unjobs_placeholder_def)
  have 2: "is_international_company j
         = (let company = lower (dict_get j ''company'' '''')
            in str_in ''global'' company \<or> str_in ''international'' company
               \<or> str_in ''inc.'' company \<or> str_in ''corp.'' company)"
    unfolding is_international_company_def g Let_def
    by (simp add: placeholder_has_no_keyword del: str_in.simps)
  have 3: "is_ngo j
         = (let company = lower (dict_get j ''company'' '''')
            in str_in ''ngo'' company \<or> str_in ''non-profit'' company
               \<or> str_in ''foundation'' company \<or> str_in ''charity'' company
               \<or> str_in ''united nations'' company \<or> str_in ''wfp'' company)"
    unfolding is_ngo_def g Let_def
    by (simp add: placeholder_has_no_keyword del: str_in.simps)
  have 4: "role_match j kw
         = list_ex (\<lambda>role. str_in (lower role) (lower (dict_get j ''title'' ''''))
                       \<or> str_in (lower role)
                            ''aggregator listing - refer to external url for full details.'')
             (roles kw)"
    unfolding role_match_def g Let_def placeholder_lower ..
  have 5: "skills_match_count j kw
         = length (filter (\<lambda>skill.
                       str_in (lower skill)
                         ''aggregator listing - refer to external url for full details.''
                       \<or> str_in (lower skill) (lower (dict_get j ''title'' '''')))
                     (skills kw))"
    unfolding skills_match_count_def g Let_def placeholder_lower ..
  from 1 2 3 4 5
  show "j ''description'' = Some ''Aggregator listing - refer to external URL for full details.''
     \<and> is_international_company j
         = (let company = lower (dict_get j ''company'' '''')
            in str_in ''global'' company \<or> str_in ''international'' company
               \<or> str_in ''inc.'' company \<or> str_in ''corp.'' company)
     \<and> is_ngo j
         = (let company = lower (dict_get j ''company'' '''')
            in str_in ''ngo'' company \<or> str_in ''non-profit'' company
               \<or> str_in ''foundation'' company \<or> str_in ''charity'' company
               \<or> str_in ''united nations'' company \<or> str_in ''wfp'' company)
     \<and> role_match j kw
         = list_ex (\<lambda>role. str_in (lower role) (lower (dict_get j ''title'' ''''))
                       \<or> str_in (lower role)
                            ''aggregator listing - refer to external url for full details.'')
             (roles kw)
     \<and> skills_match_count j kw
         = length (filter (\<lambda>skill.
                       str_in (lower skill)
                         ''aggregator listing - refer to external url for full details.''
                       \<or> str_in (lower skill) (lower (dict_get j ''title'' '''')))
                     (skills kw))"
    by (intro conjI)
qed

theorem unjobs_description_is_placeholder_witness:
  "length (scrape_unjobs_org (calendar (Ymd 2024 3 2)) example_web ''python remote'') = 2
   \<and> (scrape_unjobs_org (calendar (Ymd 2024 3 2)) example_web ''python remote'' ! 0)
        ''description''
       = Some ''Aggregator listing - refer to external URL for full details.''
   \<and> (scrape_unjobs_org (calendar (Ymd 2024 3 2)) example_web ''python remote'' ! 0) ''title''
       = Some ''Backend Developer - Global Health Foundation programme''
   \<and> (scrape_unjobs_org (calendar (Ymd 2024 3 2)) example_web ''python remote'' ! 0) ''url''
       = Some ''https://jobs.unicef.org/apply/77''
   \<and> (scrape_unjobs_org (calendar (Ymd 2024 3 2)) example_web ''python remote'' ! 0)
        ''date_posted'' = Some ''2024-02-28''
   \<and> \<not> is_ngo (scrape_unjobs_org (calendar (Ymd 2024 3 2)) example_web ''python remote'' ! 0)
   \<and> \<not> is_international_company
          (scrape_unjobs_org (calendar (Ymd 2024 3 2)) example_web ''python remote'' ! 0)
   \<and> (scrape_unjobs_org (calendar (Ymd 2024 3 2)) example_web ''python remote'' ! 1)
        ''description''
       = Some ''Aggregator listing - refer to external URL for full details.''"
proof -
  let ?jobs = "scrape_unjobs_org (calendar (Ymd 2024 3 2)) example_web ''python remote''"
  have l: "length ?jobs = 2" by code_simp
  then have m: "?jobs ! 0 \<in> set ?jobs" "?jobs ! 1 \<in> set ?jobs" by simp_all
  have f: "(?jobs ! 0) ''title'' = Some ''Backend Developer - Global Health Foundation programme''"
    "(?jobs ! 0) ''url'' = Some ''https://jobs.unicef.org/apply/77''"
    "(?jobs ! 0) ''date_posted'' = Some ''2024-02-28''"
    by code_simp+
  have c: "lower (dict_get (?jobs ! 0) ''company'' '''') = ''unicef''" by code_simp
  note t0 = unjobs_description_is_placeholder [where j = "?jobs ! 0"
      and lib = "calendar (Ymd 2024 3 2)" and w = example_web and query = "''python remote''"
      and kw = example_keywords, rule_format, OF m(1)]
  note t1 = unjobs_description_is_placeholder [where j = "?jobs ! 1"
      and lib = "calendar (Ymd 2024 3 2)" and w = example_web and query = "''python remote''"
      and kw = example_keywords, rule_format, OF m(2)]
  have d0: "(?jobs ! 0) ''description''
              = Some ''Aggregator listing - refer to external URL for full details.''"
    using t0 by blast
  have d1: "(?jobs ! 1) ''description''
              = Some ''Aggregator listing - refer to external URL for full details.''"
    using t1 by blast
  have n: "\<not> is_ngo (?jobs ! 0)"
    using t0 [THEN conjunct2, THEN conjunct2, THEN conjunct1] unfolding c Let_def by simp
  have i: "\<not> is_international_company (?jobs ! 0)"
    using t0 [THEN conjunct2, THEN conjunct1] unfolding c Let_def by simp
  from l d0 f n i d1 show ?thesis by (intro conjI)
qed

end
